theory Spec2Isabelle
  imports
    Main
    "HOL-Library.FSet"
    "HOL-Library.Finite_Map"
    "HOL-Library.Char_ord"
    "HOL-Library.List_Lexorder"
begin

section \<open>PeerPigeon signaling server: the data model\<close>

text \<open>
  A shallow embedding of \<^verbatim>\<open>internal/server/server.go\<close>. Every handler of the Go
  server becomes a function from the server state to the new server state. A Go map is
  a finite map (\<open>fmap\<close>), a Go set (\<^verbatim>\<open>map[string]struct{}\<close>) a finite set, a pointer
  that may be nil an \<open>option\<close>. Every call the server makes on a socket is appended to
  the \<open>trace\<close> of the state, so that what was written to which socket, and which
  sockets were closed, can be read off afterwards. A runtime panic is the value
  \<open>Inl\<close> of a handler's result.

  Field names are the source's. Where two structs share a field name the fields of the
  smaller struct carry a prefix (\<open>hub_\<close>, \<open>in_\<close>, \<open>out_\<close>, \<open>opt_\<close>, \<open>bc_\<close>).
\<close>

subsection \<open>JSON values\<close>

text \<open>
  The Go type \<^verbatim>\<open>interface{}\<close> of a decoded JSON value. The Go type assertion
  \<^verbatim>\<open>v.(map[string]interface{})\<close> succeeds exactly on \<open>JObj\<close>, and \<^verbatim>\<open>v.(bool)\<close>
  exactly on \<open>JBool\<close>. Numbers are never inspected by the server.
\<close>

datatype jvalue =
    JNull
  | JBool bool
  | JNum int
  | JStr string
  | JArr "jvalue list"
  | JObj "(string, jvalue) fmap"

type_synonym jobj = "(string, jvalue) fmap"

type_synonym conn = nat

subsection \<open>Strings\<close>

text \<open>
  A Go string is a byte sequence. \<^verbatim>\<open>strings.TrimSpace\<close> removes leading and trailing
  white space as Unicode defines it; \<open>whiteSpace\<close> lists the UTF-8 encodings of the code
  points for which \<^verbatim>\<open>unicode.IsSpace\<close> holds.
\<close>

definition whiteSpace :: "string list" where
  "whiteSpace =
     [[CHR 0x09], [CHR 0x0A], [CHR 0x0B], [CHR 0x0C], [CHR 0x0D], [CHR 0x20],
      [CHR 0xC2, CHR 0x85], [CHR 0xC2, CHR 0xA0],
      [CHR 0xE1, CHR 0x9A, CHR 0x80],
      [CHR 0xE2, CHR 0x80, CHR 0x80], [CHR 0xE2, CHR 0x80, CHR 0x81],
      [CHR 0xE2, CHR 0x80, CHR 0x82], [CHR 0xE2, CHR 0x80, CHR 0x83],
      [CHR 0xE2, CHR 0x80, CHR 0x84], [CHR 0xE2, CHR 0x80, CHR 0x85],
      [CHR 0xE2, CHR 0x80, CHR 0x86], [CHR 0xE2, CHR 0x80, CHR 0x87],
      [CHR 0xE2, CHR 0x80, CHR 0x88], [CHR 0xE2, CHR 0x80, CHR 0x89],
      [CHR 0xE2, CHR 0x80, CHR 0x8A],
      [CHR 0xE2, CHR 0x80, CHR 0xA8], [CHR 0xE2, CHR 0x80, CHR 0xA9],
      [CHR 0xE2, CHR 0x80, CHR 0xAF],
      [CHR 0xE2, CHR 0x81, CHR 0x9F],
      [CHR 0xE3, CHR 0x80, CHR 0x80]]"

text \<open>One leading pattern of \<open>ws\<close> that \<open>s\<close> starts with, if any.\<close>

definition leading :: "string list \<Rightarrow> string \<Rightarrow> string option" where
  "leading ws s = List.find (\<lambda>w. w \<noteq> [] \<and> take (length w) s = w) ws"

function trimLeading :: "string list \<Rightarrow> string \<Rightarrow> string" where
  "trimLeading ws s =
     (case leading ws s of
        None \<Rightarrow> s
      | Some w \<Rightarrow> trimLeading ws (drop (length w) s))"
  by pat_completeness auto

lemma leading_Some:
  "leading ws s = Some w \<Longrightarrow> w \<noteq> [] \<and> take (length w) s = w"
  by (auto simp: leading_def find_Some_iff)

lemma leading_shorter:
  assumes "leading ws s = Some w"
  shows "length (drop (length w) s) < length s"
proof -
  from assms have w: "w \<noteq> []" and t: "take (length w) s = w"
    by (auto dest: leading_Some)
  from t have "length (take (length w) s) = length w"
    by simp
  then have "length w \<le> length s"
    by simp
  with w show ?thesis by (cases w) auto
qed

termination trimLeading
  by (relation "measure (\<lambda>(ws, s). length s)") (auto dest: leading_shorter)

definition TrimSpace :: "string \<Rightarrow> string" where
  "TrimSpace s =
     rev (trimLeading (map rev whiteSpace) (rev (trimLeading whiteSpace s)))"

text \<open>\<^verbatim>\<open>firstNonEmpty\<close>, lines 529-534.\<close>

definition firstNonEmpty :: "string \<Rightarrow> string \<Rightarrow> string" where
  "firstNonEmpty a b = (if TrimSpace a \<noteq> [] then a else b)"

text \<open>\<^verbatim>\<open>strings.HasPrefix\<close> and \<^verbatim>\<open>strings.TrimPrefix\<close>.\<close>

definition HasPrefix :: "string \<Rightarrow> string \<Rightarrow> bool" where
  "HasPrefix s p = (take (length p) s = p)"

definition TrimPrefix :: "string \<Rightarrow> string \<Rightarrow> string" where
  "TrimPrefix s p = (if HasPrefix s p then drop (length p) s else s)"

text \<open>
  Modelled from the spec: \<^verbatim>\<open>validatePeerId\<close> is called by \<^verbatim>\<open>handleWS\<close> and is not in
  the source files at hand. The spec: a peerId is 40 lowercase hex characters.
\<close>

definition validatePeerId :: "string \<Rightarrow> bool" where
  "validatePeerId p = (length p = 40 \<and> list_all (\<lambda>c. c \<in> set ''0123456789abcdef'') p)"

subsection \<open>Structs\<close>

text \<open>
  The declarations of \<^verbatim>\<open>peerInfo\<close>, \<^verbatim>\<open>inboundMessage\<close>, \<^verbatim>\<open>outboundMessage\<close> and
  \<^verbatim>\<open>Options\<close> are not in the source files at hand. The records have the fields that
  \<^verbatim>\<open>server.go\<close> reads and writes, with the types it uses them at. \<^verbatim>\<open>hubInfo\<close> and
  \<^verbatim>\<open>bootstrapConn\<close> are declared in lines 618-633; the reconnect timer of
  \<^verbatim>\<open>bootstrapConn\<close> is left out, no operation below reads it.
\<close>

record peerInfo =
  PeerId :: string
  ConnectedAt :: int
  LastActivity :: int
  RemoteAddress :: string
  Connected :: bool
  Announced :: bool
  AnnouncedAt :: int
  NetworkName :: string
  IsHub :: bool
  Data :: "jobj option"

record hubInfo =
  hub_PeerId :: string
  hub_RegisteredAt :: int
  hub_LastActivity :: int
  hub_NetworkName :: string
  hub_Data :: "jobj option"

record bootstrapConn =
  bc_uri :: string
  bc_ws :: "conn option"
  bc_connected :: bool
  bc_lastAttempt :: int
  bc_attemptNum :: int

record inboundMessage =
  in_Type :: string
  in_Data :: jvalue
  in_FromPeerId :: string
  in_TargetPeer :: string
  in_NetworkName :: string

record outboundMessage =
  out_Type :: string
  out_Data :: jvalue
  out_FromPeerId :: string
  out_TargetPeer :: string
  out_NetworkName :: string
  out_Timestamp :: int

record Options =
  opt_Host :: string
  opt_Port :: int
  opt_MaxConnections :: int
  opt_IsHub :: bool
  opt_HubMeshNamespace :: string
  opt_BootstrapHubs :: "string list"
  opt_AuthToken :: string

text \<open>
  What is written to a socket: an \<^verbatim>\<open>outboundMessage\<close> struct
  (\<^verbatim>\<open>sendToConn\<close>, \<^verbatim>\<open>WriteJSON(resp)\<close>) or a \<^verbatim>\<open>map[string]interface{}\<close> payload
  built in place (\<^verbatim>\<open>WriteJSON(payload)\<close>).
\<close>

datatype wire = Envelope outboundMessage | Payload jobj

text \<open>The calls the server makes on a \<^verbatim>\<open>*websocket.Conn\<close>.\<close>

datatype sock_action =
    Write wire
  | WriteControlClose nat string
  | Close

record server =
  opts :: Options
  port :: int
  wsConns :: "(string, conn) fmap"
  peerData :: "(string, peerInfo) fmap"
  networkPeers :: "(string, string fset) fmap"
  hubs :: "(string, hubInfo) fmap"
  relayed :: "(string, int) fmap"
  hubPeerId :: string
  bootstrapConns :: "(string, bootstrapConn) fmap"
  crossHubCache :: "(string, (string, jobj) fmap) fmap"
  readLoops :: "(conn, string) fmap"
  dials :: "string list"
  trace :: "(conn \<times> sock_action) list"

text \<open>
  \<open>readLoops\<close> is not a field of the Go struct: it records the goroutines
  \<^verbatim>\<open>readLoop(peerId, conn)\<close> that are running, one per accepted socket. \<open>dials\<close>
  records the URLs given to \<^verbatim>\<open>websocket.DefaultDialer.Dial\<close>.
\<close>

text \<open>\<^verbatim>\<open>NewServer\<close>, lines 41-55. \<open>hid\<close> is the value \<^verbatim>\<open>generatePeerId\<close> returns.\<close>

definition NewServer :: "Options \<Rightarrow> string \<Rightarrow> server" where
  "NewServer opt hid =
     \<lparr> opts = opt, port = opt_Port opt,
       wsConns = fmempty, peerData = fmempty, networkPeers = fmempty,
       hubs = fmempty, relayed = fmempty,
       hubPeerId = (if opt_IsHub opt then hid else []),
       bootstrapConns = fmempty, crossHubCache = fmempty,
       readLoops = fmempty, dials = [], trace = [] \<rparr>"

text \<open>
  A \<^verbatim>\<open>range\<close> over a Go map visits the keys in an unspecified order. The model visits
  them in ascending order.
\<close>

definition keys :: "(string, 'v) fmap \<Rightarrow> string list" where
  "keys m = sorted_list_of_fset (fmdom m)"


section \<open>The operations of the server\<close>

text \<open>
  The clock \<^verbatim>\<open>nowMs()\<close> is not in the source files at hand. Every handler takes the
  clock value \<open>now\<close> as an argument and uses it wherever the source calls
  \<^verbatim>\<open>nowMs()\<close>, so the calls within one run of a handler read one value. The locks
  of the source guard against other goroutines; a handler here runs from start to end
  on its own.
\<close>

subsection \<open>Lookups and socket writes\<close>

text \<open>\<^verbatim>\<open>getConn\<close>, lines 412-417, and \<^verbatim>\<open>getPeerInfo\<close>, lines 419-424.\<close>

definition getConn :: "server \<Rightarrow> string \<Rightarrow> conn option" where
  "getConn s pid = fmlookup (wsConns s) pid"

definition getPeerInfo :: "server \<Rightarrow> string \<Rightarrow> peerInfo option" where
  "getPeerInfo s pid = fmlookup (peerData s) pid"

text \<open>\<^verbatim>\<open>sendToConn\<close>, lines 377-384.\<close>

definition sendToConn :: "conn option \<Rightarrow> outboundMessage \<Rightarrow> server \<Rightarrow> bool \<times> server" where
  "sendToConn c msg s =
     (case c of
        None \<Rightarrow> (False, s)
      | Some k \<Rightarrow> (True, s\<lparr>trace := trace s @ [(k, Write (Envelope msg))]\<rparr>))"

text \<open>\<^verbatim>\<open>forwardToLocalTarget\<close>, lines 407-410.\<close>

definition forwardToLocalTarget :: "string \<Rightarrow> outboundMessage \<Rightarrow> server \<Rightarrow> bool \<times> server" where
  "forwardToLocalTarget target msg s = sendToConn (getConn s target) msg s"

text \<open>\<^verbatim>\<open>broadcastToOthers\<close>, lines 386-405.\<close>

definition broadcastToOthers :: "string \<Rightarrow> outboundMessage \<Rightarrow> server \<Rightarrow> int \<times> server" where
  "broadcastToOthers sender msg s =
     (let ids = filter (\<lambda>pid. pid \<noteq> sender) (keys (wsConns s))
      in fold (\<lambda>pid (count, st).
                 let conn = getConn st pid;
                     m = msg\<lparr>out_TargetPeer := pid\<rparr>;
                     (ok, st') = sendToConn conn m st
                 in (if ok then count + 1 else count, st'))
           ids (0, s))"

text \<open>\<^verbatim>\<open>getActivePeers\<close>, lines 426-441.\<close>

definition getActivePeers :: "string \<Rightarrow> string \<Rightarrow> server \<Rightarrow> string list" where
  "getActivePeers exclude netName s =
     (case fmlookup (networkPeers s) netName of
        None \<Rightarrow> []
      | Some members \<Rightarrow>
          sort (filter (\<lambda>pid. pid \<noteq> exclude \<and> getConn s pid \<noteq> None)
                  (sorted_list_of_fset members)))"

text \<open>\<^verbatim>\<open>mergeMap\<close>, lines 536-545. The first argument may be a nil map.\<close>

definition mergeMap :: "jobj option \<Rightarrow> jobj \<Rightarrow> jobj" where
  "mergeMap a b = fmadd (case a of None \<Rightarrow> fmempty | Some m \<Rightarrow> m) b"

subsection \<open>Discovery\<close>

text \<open>\<^verbatim>\<open>registerHub\<close>, lines 238-242.\<close>

definition registerHub :: "string \<Rightarrow> string \<Rightarrow> jobj option \<Rightarrow> int \<Rightarrow> server \<Rightarrow> server" where
  "registerHub peerId netName data now s =
     s\<lparr>hubs := fmupd peerId
          \<lparr>hub_PeerId = peerId, hub_RegisteredAt = now, hub_LastActivity = now,
           hub_NetworkName = netName, hub_Data = data\<rparr> (hubs s)\<rparr>"

text \<open>\<^verbatim>\<open>broadcastPeerDiscovered\<close>, lines 244-252.\<close>

definition broadcastPeerDiscovered ::
  "string \<Rightarrow> string \<Rightarrow> bool \<Rightarrow> jobj option \<Rightarrow> int \<Rightarrow> server \<Rightarrow> server" where
  "broadcastPeerDiscovered peerId netName isHub data now s =
     (let peers = getActivePeers [] netName s
      in fold (\<lambda>other st.
                 if other = peerId then st
                 else snd (forwardToLocalTarget other
                        \<lparr>out_Type = ''peer-discovered'',
                         out_Data = JObj (mergeMap data
                           (fmap_of_list [(''peerId'', JStr peerId), (''isHub'', JBool isHub)])),
                         out_FromPeerId = ''system'', out_TargetPeer = other,
                         out_NetworkName = netName, out_Timestamp = now\<rparr> st))
           peers s)"

text \<open>\<^verbatim>\<open>sendExistingPeersToNew\<close>, lines 254-263.\<close>

definition sendExistingPeersToNew :: "string \<Rightarrow> string \<Rightarrow> int \<Rightarrow> server \<Rightarrow> server" where
  "sendExistingPeersToNew peerId netName now s =
     (let peers = getActivePeers peerId netName s;
          conn = getConn s peerId
      in fold (\<lambda>p st.
                 case getPeerInfo st p of
                   None \<Rightarrow> st
                 | Some pi \<Rightarrow>
                     if conn \<noteq> None then
                       snd (sendToConn conn
                         \<lparr>out_Type = ''peer-discovered'',
                          out_Data = JObj (mergeMap (Data pi)
                            (fmap_of_list [(''peerId'', JStr p), (''isHub'', JBool (IsHub pi))])),
                          out_FromPeerId = ''system'', out_TargetPeer = peerId,
                          out_NetworkName = netName, out_Timestamp = now\<rparr> st)
                     else st)
           peers s)"

text \<open>\<^verbatim>\<open>sendCachedCrossHubPeersToNew\<close>, lines 265-284.\<close>

definition sendCachedCrossHubPeersToNew :: "string \<Rightarrow> string \<Rightarrow> int \<Rightarrow> server \<Rightarrow> server" where
  "sendCachedCrossHubPeersToNew peerId netName now s =
     (case fmlookup (crossHubCache s) netName of
        None \<Rightarrow> s
      | Some cache \<Rightarrow>
          (let conn = getConn s peerId
           in fold (\<lambda>pid st.
                      case fmlookup cache pid of
                        None \<Rightarrow> st
                      | Some data \<Rightarrow>
                          if fmlookup (wsConns st) pid \<noteq> None then st
                          else if conn \<noteq> None then
                            snd (sendToConn conn
                              \<lparr>out_Type = ''peer-discovered'',
                               out_Data = JObj (mergeMap (Some data)
                                 (fmap_of_list [(''peerId'', JStr pid)])),
                               out_FromPeerId = ''system'', out_TargetPeer = peerId,
                               out_NetworkName = netName, out_Timestamp = now\<rparr> st)
                          else st)
                (keys cache) s))"

text \<open>
  The sockets of the bootstrap links that are connected, as collected in lines 815-820
  of \<^verbatim>\<open>announceToBootstrap\<close> and visited in lines 318-322 of
  \<^verbatim>\<open>forwardSignalToBootstrap\<close>.
\<close>

definition connectedBootstrap :: "server \<Rightarrow> conn list" where
  "connectedBootstrap s =
     List.map_filter
       (\<lambda>uri. case fmlookup (bootstrapConns s) uri of
                 None \<Rightarrow> None
               | Some b \<Rightarrow> if bc_connected b \<and> bc_ws b \<noteq> None then bc_ws b else None)
       (keys (bootstrapConns s))"

text \<open>\<^verbatim>\<open>announceToBootstrap\<close>, lines 813-845.\<close>

definition announceToBootstrap ::
  "string \<Rightarrow> string \<Rightarrow> bool \<Rightarrow> jobj option \<Rightarrow> int \<Rightarrow> server \<Rightarrow> server" where
  "announceToBootstrap peerId netName isHub data now s =
     (let conns = connectedBootstrap s;
          m = fmap_of_list [(''peerId'', JStr peerId), (''isHub'', JBool isHub)];
          m' = (case data of None \<Rightarrow> m | Some d \<Rightarrow> fmadd m d);
          payload = fmap_of_list
            [(''type'', JStr ''peer-discovered''), (''data'', JObj m'),
             (''networkName'', JStr netName), (''fromPeerId'', JStr ''system''),
             (''timestamp'', JNum now)]
      in fold (\<lambda>ws st. st\<lparr>trace := trace st @ [(ws, Write (Payload payload))]\<rparr>) conns s)"


subsection \<open>Signaling\<close>

text \<open>\<^verbatim>\<open>forwardSignalToBootstrap\<close>, lines 316-324.\<close>

definition forwardSignalToBootstrap :: "string \<Rightarrow> outboundMessage \<Rightarrow> server \<Rightarrow> server" where
  "forwardSignalToBootstrap target resp s =
     fold (\<lambda>uri st.
             case fmlookup (bootstrapConns st) uri of
               None \<Rightarrow> st
             | Some b \<Rightarrow>
                 (case bc_ws b of
                    None \<Rightarrow> st
                  | Some ws \<Rightarrow>
                      if bc_connected b
                      then st\<lparr>trace := trace st @ [(ws, Write (Envelope resp))]\<rparr>
                      else st))
       (keys (bootstrapConns s)) s"

text \<open>
  \<^verbatim>\<open>handleSignaling\<close>, lines 286-314. \<^verbatim>\<open>hashSignalData\<close> is not in the source files
  at hand; it is the parameter \<open>hashSignalData\<close>.
\<close>

definition handleSignaling ::
  "(jvalue \<Rightarrow> string) \<Rightarrow> string \<Rightarrow> inboundMessage \<Rightarrow> outboundMessage \<Rightarrow> int \<Rightarrow> server \<Rightarrow> server" where
  "handleSignaling hashSignalData peerId msg resp now s =
     (let target = in_TargetPeer msg;
          netName = firstNonEmpty (in_NetworkName msg) ''global''
      in if target = [] then s
         else if getConn s target \<noteq> None then
           (let tp = getPeerInfo s target;
                tn = (case tp of
                        None \<Rightarrow> ''global''
                      | Some t \<Rightarrow> if NetworkName t \<noteq> [] then NetworkName t else ''global'')
            in if netName \<noteq> tn then s
               else snd (forwardToLocalTarget target resp s))
         else
           (let dataHash = hashSignalData (in_Data msg);
                pid = in_Type msg @ '':'' @ peerId @ '':'' @ target @ '':'' @ dataHash
            in if fmlookup (relayed s) pid \<noteq> None then s
               else forwardSignalToBootstrap target resp
                      (s\<lparr>relayed := fmupd pid now (relayed s)\<rparr>)))"

text \<open>\<^verbatim>\<open>handlePing\<close>, lines 328-333.\<close>

definition handlePing :: "string \<Rightarrow> int \<Rightarrow> server \<Rightarrow> server" where
  "handlePing peerId now s =
     (case getConn s peerId of
        None \<Rightarrow> s
      | Some c \<Rightarrow>
          snd (sendToConn (Some c)
            \<lparr>out_Type = ''pong'',
             out_Data = JObj (fmap_of_list [(''timestamp'', JNum now)]),
             out_FromPeerId = ''system'', out_TargetPeer = peerId,
             out_NetworkName = ''global'', out_Timestamp = now\<rparr> s))"

subsection \<open>Disconnect and cleanup\<close>

text \<open>\<^verbatim>\<open>cleanupPeer\<close>, lines 347-375.\<close>

definition cleanupPeer :: "string \<Rightarrow> server \<Rightarrow> server" where
  "cleanupPeer peerId s =
     (let s1 = s\<lparr>wsConns := fmdrop peerId (wsConns s)\<rparr>;
          pi = fmlookup (peerData s1) peerId;
          s2 = s1\<lparr>peerData := fmdrop peerId (peerData s1)\<rparr>;
          s3 = (case pi of
                  None \<Rightarrow> s2
                | Some p \<Rightarrow> if IsHub p then s2\<lparr>hubs := fmdrop peerId (hubs s2)\<rparr> else s2)
      in case pi of
           None \<Rightarrow> s3
         | Some p \<Rightarrow>
             if NetworkName p \<noteq> [] then
               (let s4 = (case fmlookup (networkPeers s3) (NetworkName p) of
                            None \<Rightarrow> s3
                          | Some members \<Rightarrow>
                              (let members' = members |-| {|peerId|}
                               in if members' = {||}
                                  then s3\<lparr>networkPeers := fmdrop (NetworkName p) (networkPeers s3)\<rparr>
                                  else s3\<lparr>networkPeers :=
                                         fmupd (NetworkName p) members' (networkPeers s3)\<rparr>))
                in case fmlookup (crossHubCache s4) (NetworkName p) of
                     None \<Rightarrow> s4
                   | Some cache \<Rightarrow>
                       s4\<lparr>crossHubCache :=
                            fmupd (NetworkName p) (fmdrop peerId cache) (crossHubCache s4)\<rparr>)
             else s3)"

text \<open>\<^verbatim>\<open>handleDisconnect\<close>, lines 335-345.\<close>

definition handleDisconnect :: "string \<Rightarrow> nat \<Rightarrow> string \<Rightarrow> int \<Rightarrow> server \<Rightarrow> server" where
  "handleDisconnect peerId code reason now s =
     (let pi = getPeerInfo s peerId;
          netName = (case pi of None \<Rightarrow> ''global''
                     | Some p \<Rightarrow> firstNonEmpty (NetworkName p) ''global'');
          isHub = (case pi of None \<Rightarrow> False | Some p \<Rightarrow> IsHub p);
          s1 = snd (broadcastToOthers peerId
                 \<lparr>out_Type = ''peer-disconnected'',
                  out_Data = JObj (fmap_of_list
                    [(''peerId'', JStr peerId), (''isHub'', JBool isHub),
                     (''reason'', JStr reason), (''timestamp'', JNum now)]),
                  out_FromPeerId = ''system'', out_TargetPeer = [],
                  out_NetworkName = netName, out_Timestamp = now\<rparr> s)
      in cleanupPeer peerId s1)"

subsection \<open>Announce\<close>

text \<open>
  A panic of the Go runtime. \<^verbatim>\<open>readLoop\<close> runs in a goroutine of its own with no
  \<^verbatim>\<open>recover\<close>, so a panic in a message handler ends the process.
\<close>

datatype fault = NilPointerDereference

text \<open>
  \<^verbatim>\<open>handleAnnounce\<close>, lines 203-236. \<open>pi\<close> is the pointer read from \<^verbatim>\<open>peerData\<close> in
  line 212; it is nil when the peer has no record. Lines 213 and 223 test it, line 232
  reads \<^verbatim>\<open>pi.Data\<close> without a test.
\<close>

definition handleAnnounce ::
  "string \<Rightarrow> inboundMessage \<Rightarrow> outboundMessage \<Rightarrow> int \<Rightarrow> server \<Rightarrow> fault + server" where
  "handleAnnounce peerId msg resp now s =
     (let netName = firstNonEmpty (in_NetworkName msg) ''global'';
          isHub = (case in_Data msg of
                     JObj m \<Rightarrow> fmlookup m ''isHub'' = Some (JBool True)
                   | _ \<Rightarrow> False);
          pi = (case fmlookup (peerData s) peerId of
                  None \<Rightarrow> None
                | Some p \<Rightarrow>
                    Some (p\<lparr>Announced := True, AnnouncedAt := now, NetworkName := netName,
                            IsHub := (isHub \<or> netName = opt_HubMeshNamespace (opts s)),
                            Data := (case in_Data msg of JObj m \<Rightarrow> Some m | _ \<Rightarrow> Data p)\<rparr>));
          s1 = (case pi of
                  None \<Rightarrow> s
                | Some p \<Rightarrow> s\<lparr>peerData := fmupd peerId p (peerData s)\<rparr>);
          s2 = (case pi of
                  None \<Rightarrow> s1
                | Some p \<Rightarrow> if IsHub p then registerHub peerId netName (Data p) now s1 else s1);
          members = (case fmlookup (networkPeers s2) netName of
                       None \<Rightarrow> {||}
                     | Some ms \<Rightarrow> ms);
          s3 = s2\<lparr>networkPeers := fmupd netName (finsert peerId members) (networkPeers s2)\<rparr>
      in case pi of
           None \<Rightarrow> Inl NilPointerDereference
         | Some p \<Rightarrow>
             Inr (announceToBootstrap peerId netName isHub (Data p) now
                   (sendCachedCrossHubPeersToNew peerId netName now
                     (sendExistingPeersToNew peerId netName now
                       (broadcastPeerDiscovered peerId netName isHub (Data p) now s3)))))"

subsection \<open>Dispatch\<close>

text \<open>The envelope \<^verbatim>\<open>resp\<close> built in line 185 of \<^verbatim>\<open>handleMessage\<close>.\<close>

definition respOf :: "string \<Rightarrow> inboundMessage \<Rightarrow> int \<Rightarrow> outboundMessage" where
  "respOf peerId msg now =
     \<lparr>out_Type = in_Type msg, out_Data = in_Data msg,
      out_FromPeerId = firstNonEmpty (in_FromPeerId msg) peerId,
      out_TargetPeer = in_TargetPeer msg,
      out_NetworkName = firstNonEmpty (in_NetworkName msg) ''global'',
      out_Timestamp = now\<rparr>"

text \<open>Lines 180-184 of \<^verbatim>\<open>handleMessage\<close>: the activity stamp of the sender's record.\<close>

definition touch :: "string \<Rightarrow> int \<Rightarrow> server \<Rightarrow> server" where
  "touch peerId now s =
     (case fmlookup (peerData s) peerId of
        None \<Rightarrow> s
      | Some pi \<Rightarrow>
          s\<lparr>peerData := fmupd peerId (pi\<lparr>LastActivity := now\<rparr>) (peerData s)\<rparr>)"

text \<open>
  \<^verbatim>\<open>handleMessage\<close>, lines 175-201. \<open>data\<close> is the result of \<^verbatim>\<open>json.Unmarshal\<close>:
  \<open>None\<close> when the frame does not decode. \<^verbatim>\<open>handlePeerDiscovered\<close> (line 326) has
  an empty body.
\<close>

definition handleMessage ::
  "(jvalue \<Rightarrow> string) \<Rightarrow> string \<Rightarrow> inboundMessage option \<Rightarrow> int \<Rightarrow> server \<Rightarrow> fault + server" where
  "handleMessage hashSignalData peerId data now s =
     (case data of
        None \<Rightarrow> Inr s
      | Some msg \<Rightarrow>
          (let s1 = touch peerId now s;
               resp = respOf peerId msg now
           in if in_Type msg = ''announce'' then handleAnnounce peerId msg resp now s1
              else if in_Type msg = ''goodbye''
                then Inr (cleanupPeer peerId (snd (broadcastToOthers peerId resp s1)))
              else if in_Type msg = ''offer'' \<or> in_Type msg = ''answer''
                      \<or> in_Type msg = ''ice-candidate''
                then Inr (handleSignaling hashSignalData peerId msg resp now s1)
              else if in_Type msg = ''peer-discovered'' then Inr s1
              else if in_Type msg = ''ping'' then Inr (handlePing peerId now s1)
              else Inr s1))"


subsection \<open>Accepting a connection\<close>

text \<open>
  What \<^verbatim>\<open>handleWS\<close> reads from the HTTP request, and the result of
  \<^verbatim>\<open>upgrader.Upgrade\<close>: the new socket, or \<open>None\<close> when the upgrade fails.
\<close>

record request =
  rq_peerId :: string
  rq_Authorization :: string
  rq_token :: string
  rq_ClientIP :: string
  rq_upgrade :: "conn option"

datatype response = HttpError nat string | UpgradeError | Upgraded

text \<open>\<^verbatim>\<open>ClosePolicyViolation\<close> of the websocket library.\<close>

definition ClosePolicyViolation :: nat where
  "ClosePolicyViolation = 1008"

text \<open>\<^verbatim>\<open>handleWS\<close>, lines 121-162. Line 161 starts the read loop of the new socket.\<close>

definition handleWS :: "int \<Rightarrow> request \<Rightarrow> server \<Rightarrow> response \<times> server" where
  "handleWS now rq s =
     (let peerId = rq_peerId rq;
          auth = rq_Authorization rq
      in if opt_AuthToken (opts s) \<noteq> []
            \<and> (\<not> HasPrefix auth ''Bearer ''
                 \<or> TrimPrefix auth ''Bearer '' \<noteq> opt_AuthToken (opts s))
            \<and> rq_token rq \<noteq> opt_AuthToken (opts s)
         then (HttpError 401 ''unauthorized'', s)
         else if \<not> validatePeerId peerId then (HttpError 403 ''invalid peerId'', s)
         else
           (case rq_upgrade rq of
              None \<Rightarrow> (UpgradeError, s)
            | Some conn \<Rightarrow>
                (let s1 = (case fmlookup (wsConns s) peerId of
                             None \<Rightarrow> s
                           | Some old \<Rightarrow>
                               s\<lparr>wsConns := fmdrop peerId (wsConns s),
                                 trace := trace s @ [(old, Close)]\<rparr>)
                 in if int (fcard (fmdom (wsConns s1))) \<ge> opt_MaxConnections (opts s1) then
                      (Upgraded,
                       s1\<lparr>trace := trace s1 @
                            [(conn, WriteControlClose ClosePolicyViolation ''max connections''),
                             (conn, Close)]\<rparr>)
                    else
                      (let s2 = s1\<lparr>wsConns := fmupd peerId conn (wsConns s1)\<rparr>;
                           s3 = s2\<lparr>peerData := fmupd peerId
                                  \<lparr>PeerId = peerId, ConnectedAt = now, LastActivity = now,
                                   RemoteAddress = rq_ClientIP rq, Connected = True,
                                   Announced = False, AnnouncedAt = 0, NetworkName = [],
                                   IsHub = False, Data = None\<rparr> (peerData s2)\<rparr>;
                           s4 = snd (sendToConn (Some conn)
                                  \<lparr>out_Type = ''connected'',
                                   out_Data = JObj (fmap_of_list [(''peerId'', JStr peerId)]),
                                   out_FromPeerId = ''system'', out_TargetPeer = [],
                                   out_NetworkName = ''global'', out_Timestamp = now\<rparr> s3)
                       in (Upgraded, s4\<lparr>readLoops := fmupd conn peerId (readLoops s4)\<rparr>)))))"

subsection \<open>Housekeeping and the cross-hub cache\<close>

text \<open>
  \<^verbatim>\<open>performCleanup\<close>, lines 460-477. The calls of \<^verbatim>\<open>getActivePeers\<close> in lines
  464-466 change nothing. Clock values are milliseconds since the epoch, far from the
  bounds of \<^verbatim>\<open>int64\<close>, so the subtraction is the one of the integers.
\<close>

definition performCleanup :: "int \<Rightarrow> server \<Rightarrow> server" where
  "performCleanup now s =
     s\<lparr>relayed :=
         fmfilter (\<lambda>pid. case fmlookup (relayed s) pid of
                           None \<Rightarrow> False
                         | Some ts \<Rightarrow> \<not> (now - ts > 5000))
           (relayed s)\<rparr>"

text \<open>\<^verbatim>\<open>cacheCrossHubPeer\<close>, lines 451-458.\<close>

definition cacheCrossHubPeer :: "string \<Rightarrow> string \<Rightarrow> jobj \<Rightarrow> server \<Rightarrow> server" where
  "cacheCrossHubPeer netName pid data s =
     (let cache = (case fmlookup (crossHubCache s) netName of
                     None \<Rightarrow> fmempty
                   | Some c \<Rightarrow> c)
      in s\<lparr>crossHubCache := fmupd netName (fmupd pid data cache) (crossHubCache s)\<rparr>)"

subsection \<open>The hub mesh client\<close>

text \<open>
  \<^verbatim>\<open>URL.Port()\<close> of \<^verbatim>\<open>net/url\<close>, on the field \<^verbatim>\<open>URL.Host\<close> (which is
  \<^verbatim>\<open>host\<close> or \<^verbatim>\<open>host:port\<close>): the text after the last colon when that text is
  made of digits, the empty string otherwise.
\<close>

fun LastIndexByte :: "string \<Rightarrow> char \<Rightarrow> nat option" where
  "LastIndexByte [] c = None"
| "LastIndexByte (x # xs) c =
     (case LastIndexByte xs c of
        Some i \<Rightarrow> Some (Suc i)
      | None \<Rightarrow> if x = c then Some 0 else None)"

definition validOptionalPort :: "string \<Rightarrow> bool" where
  "validOptionalPort p =
     (case p of
        [] \<Rightarrow> True
      | c # cs \<Rightarrow> c = CHR '':'' \<and> list_all (\<lambda>b. CHR ''0'' \<le> b \<and> b \<le> CHR ''9'') cs)"

definition urlPort :: "string \<Rightarrow> string" where
  "urlPort host =
     (case LastIndexByte host CHR '':'' of
        None \<Rightarrow> []
      | Some colon \<Rightarrow>
          if validOptionalPort (drop colon host) then drop (Suc colon) host else [])"

text \<open>\<^verbatim>\<open>announceLocalPeersToBootstrap\<close>, lines 723-745.\<close>

definition announceLocalPeersToBootstrap :: "conn \<Rightarrow> int \<Rightarrow> server \<Rightarrow> server" where
  "announceLocalPeersToBootstrap ws now s =
     fold (\<lambda>netName st.
             case fmlookup (networkPeers st) netName of
               None \<Rightarrow> st
             | Some members \<Rightarrow>
                 fold (\<lambda>peerId st'.
                         case fmlookup (peerData st') peerId of
                           None \<Rightarrow> st'
                         | Some pi \<Rightarrow>
                             if \<not> Announced pi then st'
                             else st'\<lparr>trace := trace st' @
                                    [(ws, Write (Payload (fmap_of_list
                                       [(''type'', JStr ''peer-discovered''),
                                        (''data'', JObj (fmap_of_list
                                           [(''peerId'', JStr peerId),
                                            (''isHub'', JBool (netName =
                                               opt_HubMeshNamespace (opts st')))])),
                                        (''networkName'', JStr netName),
                                        (''fromPeerId'', JStr ''system''),
                                        (''timestamp'', JNum now)])))]\<rparr>)
                   (sorted_list_of_fset members) st)
       (keys (networkPeers s)) s"

text \<open>\<^verbatim>\<open>sendAnnouncementToBootstrap\<close>, lines 707-721.\<close>

definition sendAnnouncementToBootstrap :: "conn \<Rightarrow> int \<Rightarrow> server \<Rightarrow> server" where
  "sendAnnouncementToBootstrap ws now s =
     announceLocalPeersToBootstrap ws now
       (s\<lparr>trace := trace s @
            [(ws, Write (Payload (fmap_of_list
               [(''type'', JStr ''announce''),
                (''networkName'', JStr (opt_HubMeshNamespace (opts s))),
                (''data'', JObj (fmap_of_list
                   [(''isHub'', JBool True), (''port'', JNum (port s)),
                    (''host'', JStr (opt_Host (opts s))),
                    (''capabilities'', JArr [JStr ''signaling'', JStr ''relay'']),
                    (''timestamp'', JNum now)]))])))]\<rparr>)"

text \<open>
  \<^verbatim>\<open>connectToHub\<close>, lines 641-661, with \<^verbatim>\<open>handleBootstrapOpen\<close>, lines 663-676.
  The library calls are parameters: \<open>parsedHost\<close> is the field \<^verbatim>\<open>Host\<close> of the result
  of \<^verbatim>\<open>url.Parse(uri)\<close> (\<open>None\<close> when it fails), \<open>dial\<close> the socket
  \<^verbatim>\<open>DefaultDialer.Dial\<close> returns (\<open>None\<close> when it fails). \<^verbatim>\<open>itoa\<close> is not in the
  source files at hand and is a parameter too.
\<close>

definition connectToHub ::
  "(int \<Rightarrow> string) \<Rightarrow> string option \<Rightarrow> conn option \<Rightarrow> string \<Rightarrow> int \<Rightarrow> int \<Rightarrow> server \<Rightarrow> server" where
  "connectToHub itoa parsedHost dial uri attempt now s =
     (case parsedHost of
        None \<Rightarrow> s
      | Some uHost \<Rightarrow>
          if uHost = opt_Host (opts s) \<and> urlPort uHost = itoa (port s) then s
          else
            (let s1 = s\<lparr>dials := dials s @ [uri @ ''?peerId='' @ hubPeerId s]\<rparr>
             in case dial of
                  None \<Rightarrow> s1
                | Some ws \<Rightarrow>
                    (let info = \<lparr>bc_uri = uri, bc_ws = Some ws, bc_connected = True,
                                 bc_lastAttempt = now, bc_attemptNum = attempt\<rparr>;
                         s2 = s1\<lparr>bootstrapConns := fmupd uri info (bootstrapConns s1)\<rparr>
                     in sendAnnouncementToBootstrap ws now s2)))"

subsection \<open>The read loops\<close>

text \<open>
  What can happen at the server: an upgrade request arrives; the read loop of a socket
  reads a frame (\<^verbatim>\<open>readLoop\<close>, lines 164-173, calls \<^verbatim>\<open>handleMessage\<close>); the read
  loop of a socket gets an error from \<^verbatim>\<open>ReadMessage\<close>, as it does when the socket was
  closed (it calls \<^verbatim>\<open>handleDisconnect\<close> and ends); the cleanup ticker fires.
\<close>

datatype event =
    Upgrade request
  | Frame conn "inboundMessage option"
  | ReadError conn string
  | Tick

text \<open>\<^verbatim>\<open>CloseAbnormalClosure\<close> of the websocket library.\<close>

definition CloseAbnormalClosure :: nat where
  "CloseAbnormalClosure = 1006"

definition step :: "(jvalue \<Rightarrow> string) \<Rightarrow> int \<Rightarrow> event \<Rightarrow> server \<Rightarrow> fault + server" where
  "step hashSignalData now e s =
     (case e of
        Upgrade rq \<Rightarrow> Inr (snd (handleWS now rq s))
      | Frame c data \<Rightarrow>
          (case fmlookup (readLoops s) c of
             None \<Rightarrow> Inr s
           | Some peerId \<Rightarrow> handleMessage hashSignalData peerId data now s)
      | ReadError c reason \<Rightarrow>
          (case fmlookup (readLoops s) c of
             None \<Rightarrow> Inr s
           | Some peerId \<Rightarrow>
               Inr (handleDisconnect peerId CloseAbnormalClosure reason now
                      (s\<lparr>readLoops := fmdrop c (readLoops s)\<rparr>)))
      | Tick \<Rightarrow> Inr (performCleanup now s))"

text \<open>A run of the server: the events in order, each with its clock value. A panic ends it.\<close>

fun run :: "(jvalue \<Rightarrow> string) \<Rightarrow> (int \<times> event) list \<Rightarrow> server \<Rightarrow> fault + server" where
  "run hashSignalData [] s = Inr s"
| "run hashSignalData ((now, e) # es) s =
     (case step hashSignalData now e s of
        Inl f \<Rightarrow> Inl f
      | Inr s' \<Rightarrow> run hashSignalData es s')"

subsection \<open>Reading the trace\<close>

text \<open>
  A socket action that is the write of an envelope addressed to peer \<open>P\<close> (its
  \<^verbatim>\<open>TargetPeer\<close> is \<open>P\<close>), or the write of a payload to a bootstrap link.
\<close>

definition toPeerOrMesh :: "string \<Rightarrow> conn \<times> sock_action \<Rightarrow> bool" where
  "toPeerOrMesh P e =
     (case snd e of
        Write (Envelope m) \<Rightarrow> out_TargetPeer m = P
      | Write (Payload x) \<Rightarrow> True
      | WriteControlClose code reason \<Rightarrow> False
      | Close \<Rightarrow> False)"

section \<open>Concrete inputs\<close>

text \<open>
  Two peer ids, a configuration with the defaults of the spec, and the events and
  frames the scenarios below are made of. \<open>observe\<close> reads a component of the state a
  run ends in.
\<close>

definition peerA :: string where
  "peerA = replicate 40 (CHR ''a'')"

definition peerB :: string where
  "peerB = replicate 40 (CHR ''b'')"

definition hubId :: string where
  "hubId = replicate 40 (CHR ''0'')"

definition opts0 :: Options where
  "opts0 = \<lparr>opt_Host = ''localhost'', opt_Port = 3000, opt_MaxConnections = 1000,
     opt_IsHub = False, opt_HubMeshNamespace = ''pigeonhub-mesh'',
     opt_BootstrapHubs = [], opt_AuthToken = []\<rparr>"

definition hubOpts :: Options where
  "hubOpts = opts0\<lparr>opt_IsHub := True, opt_BootstrapHubs := [''ws://localhost:3000'']\<rparr>"

definition requestOf :: "string \<Rightarrow> conn \<Rightarrow> request" where
  "requestOf pid c = \<lparr>rq_peerId = pid, rq_Authorization = [], rq_token = [],
     rq_ClientIP = ''10.0.0.1'', rq_upgrade = Some c\<rparr>"

definition connect :: "string \<Rightarrow> conn \<Rightarrow> event" where
  "connect pid c = Upgrade (requestOf pid c)"

definition announceMsg :: "string \<Rightarrow> jvalue \<Rightarrow> inboundMessage" where
  "announceMsg n d = \<lparr>in_Type = ''announce'', in_Data = d, in_FromPeerId = [],
     in_TargetPeer = [], in_NetworkName = n\<rparr>"

definition goodbyeMsg :: inboundMessage where
  "goodbyeMsg = \<lparr>in_Type = ''goodbye'', in_Data = JNull, in_FromPeerId = [],
     in_TargetPeer = [], in_NetworkName = []\<rparr>"

definition offerMsg :: "string \<Rightarrow> string \<Rightarrow> string \<Rightarrow> inboundMessage" where
  "offerMsg from target n = \<lparr>in_Type = ''offer'',
     in_Data = JObj (fmap_of_list [(''sdp'', JStr ''x'')]), in_FromPeerId = from,
     in_TargetPeer = target, in_NetworkName = n\<rparr>"

definition noHash :: "jvalue \<Rightarrow> string" where
  "noHash v = []"

definition observe :: "(server \<Rightarrow> 'a) \<Rightarrow> fault + server \<Rightarrow> fault + 'a" where
  "observe f r = (case r of Inl e \<Rightarrow> Inl e | Inr s \<Rightarrow> Inr (f s))"

text \<open>A server with room for one connection, after peer A has connected on socket 1.\<close>

definition capOpts :: Options where
  "capOpts = opts0\<lparr>opt_MaxConnections := 1\<rparr>"

definition oneConnected :: server where
  "oneConnected = snd (handleWS 1 (requestOf peerA 1) (NewServer capOpts []))"

text \<open>
  Peer A on socket 1 has announced into \<^verbatim>\<open>net1\<close>, peer B on socket 2 into
  \<^verbatim>\<open>net2\<close>.
\<close>

definition twoNetworks :: server where
  "twoNetworks = projr (run noHash
        [(1, connect peerA 1), (2, connect peerB 2),
         (3, Frame 1 (Some (announceMsg ''net1'' JNull))),
         (4, Frame 2 (Some (announceMsg ''net2'' JNull)))]
        (NewServer opts0 []))"

text \<open>
  A hub with two bootstrap links, the first connected on socket 7 and the second not
  connected, after peer A has connected on socket 1.
\<close>

definition meshOpts :: Options where
  "meshOpts = opts0\<lparr>opt_IsHub := True,
     opt_BootstrapHubs := [''ws://hub1:3000'', ''ws://hub2:3000'']\<rparr>"

definition hubServer :: server where
  "hubServer =
     (projr (run noHash [(1, connect peerA 1)] (NewServer meshOpts hubId)))
       \<lparr>bootstrapConns := fmap_of_list
          [(''ws://hub1:3000'',
            \<lparr>bc_uri = ''ws://hub1:3000'', bc_ws = Some 7, bc_connected = True,
             bc_lastAttempt = 0, bc_attemptNum = 0\<rparr>),
           (''ws://hub2:3000'',
            \<lparr>bc_uri = ''ws://hub2:3000'', bc_ws = Some 8, bc_connected = False,
             bc_lastAttempt = 0, bc_attemptNum = 0\<rparr>)]\<rparr>"

text \<open>
  Peer A on socket 1 and peer B on socket 2 have both announced into \<^verbatim>\<open>global\<close>
  (scenario S1 of the spec).
\<close>

definition sameNetwork :: server where
  "sameNetwork = projr (run noHash
        [(1, connect peerA 1), (2, connect peerB 2),
         (3, Frame 1 (Some (announceMsg ''global'' JNull))),
         (4, Frame 2 (Some (announceMsg ''global'' JNull)))]
        (NewServer opts0 []))"

text \<open>
  Peer B on socket 2 has announced into \<^verbatim>\<open>global\<close>; peer A on socket 1 is connected
  and has not announced. \<open>conflictingData\<close> is announce data that carries keys of its
  own named \<^verbatim>\<open>peerId\<close> and \<^verbatim>\<open>isHub\<close>.
\<close>

definition waiting :: server where
  "waiting = projr (run noHash
        [(1, connect peerA 1), (2, connect peerB 2),
         (3, Frame 2 (Some (announceMsg ''global'' JNull)))]
        (NewServer opts0 []))"

definition conflictingData :: jobj where
  "conflictingData = fmap_of_list
     [(''peerId'', JStr peerB), (''isHub'', JStr ''yes''), (''name'', JStr ''alice'')]"

section \<open>Auxiliary facts\<close>

text \<open>A loop whose body only appends to the trace appends the bodies' output in order.\<close>

lemma fold_appends:
  assumes "\<And>x t. f x (s\<lparr>trace := t\<rparr>) = s\<lparr>trace := t @ g x\<rparr>"
  shows "fold f xs (s\<lparr>trace := t\<rparr>) = s\<lparr>trace := t @ concat (map g xs)\<rparr>"
  by (induction xs arbitrary: t) (simp_all add: assms)

lemma fold_appends':
  assumes "\<And>x t. f x (s\<lparr>trace := t\<rparr>) = s\<lparr>trace := t @ g x\<rparr>"
  shows "fold f xs s = s\<lparr>trace := trace s @ concat (map g xs)\<rparr>"
  using fold_appends [of f s g xs "trace s", OF assms] by simp

lemma set_keys: "set (keys m) = fmdom' m"
  by (simp add: keys_def fmdom'_alt_def)

lemma distinct_keys: "distinct (keys m)"
  by (simp add: keys_def sorted_list_of_fset.rep_eq)

lemma snd_sendToConn:
  "snd (sendToConn c m s) =
     s\<lparr>trace := trace s @ (case c of None \<Rightarrow> [] | Some k \<Rightarrow> [(k, Write (Envelope m))])\<rparr>"
  by (simp add: sendToConn_def split: option.splits)

lemma forwardSignalToBootstrap_trace:
  "forwardSignalToBootstrap target resp s =
     s\<lparr>trace := trace s @ map (\<lambda>ws. (ws, Write (Envelope resp))) (connectedBootstrap s)\<rparr>"
proof -
  let ?g = "\<lambda>uri. case fmlookup (bootstrapConns s) uri of None \<Rightarrow> []
       | Some b \<Rightarrow> (case bc_ws b of None \<Rightarrow> []
           | Some ws \<Rightarrow> if bc_connected b then [(ws, Write (Envelope resp))] else [])"
  have "forwardSignalToBootstrap target resp s =
      s\<lparr>trace := trace s @ concat (map ?g (keys (bootstrapConns s)))\<rparr>"
    unfolding forwardSignalToBootstrap_def
    by (rule fold_appends') (simp split: option.splits)
  moreover have "concat (map ?g ks) =
      map (\<lambda>ws. (ws, Write (Envelope resp)))
        (List.map_filter (\<lambda>uri. case fmlookup (bootstrapConns s) uri of None \<Rightarrow> None
               | Some b \<Rightarrow> if bc_connected b \<and> bc_ws b \<noteq> None then bc_ws b else None) ks)" for ks
    by (induction ks) (auto simp: List.map_filter_simps split: option.splits)
  ultimately show ?thesis by (simp add: connectedBootstrap_def)
qed

lemma announceToBootstrap_trace:
  "\<exists>p. announceToBootstrap peerId netName isHub data now s =
     s\<lparr>trace := trace s @ map (\<lambda>ws. (ws, Write (Payload p))) (connectedBootstrap s)\<rparr>"
proof -
  have *: "fold (\<lambda>ws st. st\<lparr>trace := trace st @ [(ws, Write (Payload p))]\<rparr>) cs s
      = s\<lparr>trace := trace s @ concat (map (\<lambda>ws. [(ws, Write (Payload p))]) cs)\<rparr>" for p cs
    by (rule fold_appends') simp
  have **: "concat (map (\<lambda>ws. [(ws, Write (Payload p))]) cs)
      = map (\<lambda>ws. (ws, Write (Payload p))) cs" for p cs
    by (induction cs) auto
  show ?thesis
    unfolding announceToBootstrap_def Let_def * ** by blast
qed

lemma broadcastToOthers_fold:
  assumes "set ids \<subseteq> fmdom' (wsConns s)"
  shows "fold (\<lambda>pid (count, st).
                 let conn = getConn st pid;
                     m = msg\<lparr>out_TargetPeer := pid\<rparr>;
                     (ok, st') = sendToConn conn m st
                 in (if ok then count + 1 else count, st'))
           ids (n, s\<lparr>trace := t\<rparr>)
       = (n + int (length ids),
          s\<lparr>trace := t @ map (\<lambda>pid. (the (fmlookup (wsConns s) pid),
                   Write (Envelope (msg\<lparr>out_TargetPeer := pid\<rparr>)))) ids\<rparr>)"
  using assms
proof (induction ids arbitrary: n t)
  case Nil
  then show ?case by simp
next
  case (Cons a ids)
  then obtain c where c: "fmlookup (wsConns s) a = Some c"
    by (auto simp: fmlookup_dom'_iff)
  from Cons.prems have sub: "set ids \<subseteq> fmdom' (wsConns s)" by simp
  show ?case
    using Cons.IH [OF sub] c
    by (simp add: getConn_def sendToConn_def)
qed

lemma broadcastToOthers_snd:
  "snd (broadcastToOthers sender msg s) =
     s\<lparr>trace := trace s @
        map (\<lambda>pid. (the (fmlookup (wsConns s) pid),
               Write (Envelope (msg\<lparr>out_TargetPeer := pid\<rparr>))))
          (filter (\<lambda>pid. pid \<noteq> sender) (keys (wsConns s)))\<rparr>"
proof -
  have "set (filter (\<lambda>pid. pid \<noteq> sender) (keys (wsConns s))) \<subseteq> fmdom' (wsConns s)"
    by (auto simp: set_keys)
  from broadcastToOthers_fold [OF this, of msg 0 "trace s"]
  show ?thesis by (simp add: broadcastToOthers_def)
qed

text \<open>The activity stamp changes the registry only, and no network name in it.\<close>

lemma touch_fields [simp]:
  "wsConns (touch P now s) = wsConns s"
  "relayed (touch P now s) = relayed s"
  "trace (touch P now s) = trace s"
  "bootstrapConns (touch P now s) = bootstrapConns s"
  "networkPeers (touch P now s) = networkPeers s"
  "crossHubCache (touch P now s) = crossHubCache s"
  "hubs (touch P now s) = hubs s"
  "opts (touch P now s) = opts s"
  by (simp_all add: touch_def split: option.splits)

lemma touch_NetworkName:
  "map_option NetworkName (fmlookup (peerData (touch P now s)) T)
     = map_option NetworkName (fmlookup (peerData s) T)"
  by (auto simp: touch_def split: option.splits)

lemma getConn_touch [simp]: "getConn (touch P now s) T = getConn s T"
  by (simp add: getConn_def)

lemma connectedBootstrap_touch [simp]: "connectedBootstrap (touch P now s) = connectedBootstrap s"
  by (simp add: connectedBootstrap_def)

lemma handleMessage_signaling:
  assumes "in_Type msg = ''offer'' \<or> in_Type msg = ''answer'' \<or> in_Type msg = ''ice-candidate''"
  shows "handleMessage hashSignalData P (Some msg) now s =
           Inr (handleSignaling hashSignalData P msg (respOf P msg now) now (touch P now s))"
proof -
  from assms have "in_Type msg \<noteq> ''announce''" "in_Type msg \<noteq> ''goodbye''"
    by auto
  with assms show ?thesis
    by (simp add: handleMessage_def Let_def)
qed

text \<open>The relay branch of \<^verbatim>\<open>handleSignaling\<close>, lines 304-313.\<close>

lemma connectedBootstrap_links:
  "connectedBootstrap s =
     map (\<lambda>uri. the (bc_ws (the (fmlookup (bootstrapConns s) uri))))
       (filter (\<lambda>uri. case fmlookup (bootstrapConns s) uri of
                         None \<Rightarrow> False
                       | Some b \<Rightarrow> bc_connected b \<and> bc_ws b \<noteq> None)
          (keys (bootstrapConns s)))"
proof -
  have "List.map_filter
          (\<lambda>uri. case fmlookup (bootstrapConns s) uri of
                 None \<Rightarrow> None
               | Some b \<Rightarrow> if bc_connected b \<and> bc_ws b \<noteq> None then bc_ws b else None) ks
      = map (\<lambda>uri. the (bc_ws (the (fmlookup (bootstrapConns s) uri))))
       (filter (\<lambda>uri. case fmlookup (bootstrapConns s) uri of
                         None \<Rightarrow> False
                       | Some b \<Rightarrow> bc_connected b \<and> bc_ws b \<noteq> None) ks)" for ks
    by (induction ks) (auto simp: List.map_filter_simps split: option.splits)
  then show ?thesis by (simp add: connectedBootstrap_def)
qed

lemma handleSignaling_relay:
  assumes "in_TargetPeer msg \<noteq> []"
      and "getConn s (in_TargetPeer msg) = None"
  shows "handleSignaling h P msg resp now s =
     (let pid = in_Type msg @ '':'' @ P @ '':'' @ in_TargetPeer msg @ '':'' @ h (in_Data msg)
      in if fmlookup (relayed s) pid \<noteq> None then s
         else s\<lparr>relayed := fmupd pid now (relayed s),
                trace := trace s @ map (\<lambda>ws. (ws, Write (Envelope resp))) (connectedBootstrap s)\<rparr>)"
  using assms
  by (simp add: handleSignaling_def Let_def forwardSignalToBootstrap_trace connectedBootstrap_def)

text \<open>
  The self-dial test of \<^verbatim>\<open>connectToHub\<close> (line 646) compares \<^verbatim>\<open>u.Host\<close>, which
  holds the port of the URI too, with the bind host. When the bind host has no
  colon the test cannot hold, whatever the URI is, and the dial is made.
\<close>

lemma fold_keeps:
  assumes "\<And>x st. f (g x st) = f st"
  shows "f (fold g xs s) = f s"
  by (induction xs arbitrary: s) (simp_all add: assms)

lemma LastIndexByte_member: "LastIndexByte h c = Some i \<Longrightarrow> c \<in> set h"
  by (induction h arbitrary: i) (auto split: option.splits if_splits)

lemma urlPort_colon: "urlPort h \<noteq> [] \<Longrightarrow> CHR '':'' \<in> set h"
  by (auto simp: urlPort_def dest: LastIndexByte_member split: option.splits if_splits)

lemma dials_announceLocalPeersToBootstrap [simp]:
  "dials (announceLocalPeersToBootstrap ws now s) = dials s"
  unfolding announceLocalPeersToBootstrap_def
  by (rule fold_keeps) (auto split: option.splits intro!: fold_keeps)

lemma dials_sendAnnouncementToBootstrap [simp]:
  "dials (sendAnnouncementToBootstrap ws now s) = dials s"
  by (simp add: sendAnnouncementToBootstrap_def)

lemma self_dial_guard_needs_colon:
  assumes "CHR '':'' \<notin> set (opt_Host (opts s))" and "itoa (port s) \<noteq> []"
  shows "dials (connectToHub itoa (Some h) dial uri attempt now s)
           = dials s @ [uri @ ''?peerId='' @ hubPeerId s]"
proof -
  have "\<not> (h = opt_Host (opts s) \<and> urlPort h = itoa (port s))"
    using assms urlPort_colon [of h] by auto
  then show ?thesis
    by (auto simp: connectToHub_def Let_def split: option.splits)
qed

text \<open>What \<^verbatim>\<open>cleanupPeer\<close> leaves alone, and the two forwarding branches of the dispatch.\<close>

lemma cleanupPeer_fields [simp]:
  "trace (cleanupPeer P s) = trace s"
  "wsConns (cleanupPeer P s) = fmdrop P (wsConns s)"
  "peerData (cleanupPeer P s) = fmdrop P (peerData s)"
  "relayed (cleanupPeer P s) = relayed s"
  "bootstrapConns (cleanupPeer P s) = bootstrapConns s"
  by (simp_all add: cleanupPeer_def Let_def split: option.splits)

lemma handleMessage_goodbye:
  assumes "in_Type msg = ''goodbye''"
  shows "handleMessage hashSignalData P (Some msg) now s =
           Inr (cleanupPeer P (snd (broadcastToOthers P (respOf P msg now) (touch P now s))))"
  using assms by (simp add: handleMessage_def Let_def)

lemma handleSignaling_trace:
  "\<exists>sent. trace (handleSignaling h P msg resp now s)
            = trace s @ map (\<lambda>c. (c, Write (Envelope resp))) sent"
proof (cases "in_TargetPeer msg = []")
  case True
  then have "trace (handleSignaling h P msg resp now s)
            = trace s @ map (\<lambda>c. (c, Write (Envelope resp))) []"
    by (simp add: handleSignaling_def)
  then show ?thesis by blast
next
  case target: False
  show ?thesis
  proof (cases "getConn s (in_TargetPeer msg)")
    case None
    with target have "trace (handleSignaling h P msg resp now s) = trace s @ map (\<lambda>c. (c, Write (Envelope resp))) []
       \<or> trace (handleSignaling h P msg resp now s) = trace s @ map (\<lambda>c. (c, Write (Envelope resp))) (connectedBootstrap s)"
      by (simp add: handleSignaling_relay Let_def)
    then show ?thesis by blast
  next
    case (Some c)
    with target have "trace (handleSignaling h P msg resp now s) = trace s @ map (\<lambda>c. (c, Write (Envelope resp))) []
       \<or> trace (handleSignaling h P msg resp now s) = trace s @ map (\<lambda>c. (c, Write (Envelope resp))) [c]"
      by (simp add: handleSignaling_def Let_def forwardToLocalTarget_def snd_sendToConn)
    then show ?thesis by blast
  qed
qed

text \<open>After \<^verbatim>\<open>cleanupPeer\<close> the peer is not a member of the network its record named.\<close>

lemma cleanupPeer_not_member:
  assumes "fmlookup (peerData s) P = Some p" and "NetworkName p \<noteq> []"
  shows "case fmlookup (networkPeers (cleanupPeer P s)) (NetworkName p) of
           None \<Rightarrow> True
         | Some ms \<Rightarrow> P |\<notin>| ms"
  using assms
  by (auto simp: cleanupPeer_def Let_def split: option.splits)

lemma broadcastToOthers_fields [simp]:
  "wsConns (snd (broadcastToOthers P m s)) = wsConns s"
  "peerData (snd (broadcastToOthers P m s)) = peerData s"
  "networkPeers (snd (broadcastToOthers P m s)) = networkPeers s"
  by (simp_all add: broadcastToOthers_snd)

text \<open>The four fan-out steps of \<^verbatim>\<open>handleAnnounce\<close>: each only appends to the trace.\<close>

lemma sorted_keys_fset: "sorted (sorted_list_of_fset S)" "distinct (sorted_list_of_fset S)"
  by (simp_all add: sorted_list_of_fset.rep_eq)

lemma filter_finsert_other:
  "filter (\<lambda>q. q \<noteq> P \<and> R q) (sorted_list_of_fset (finsert P ms))
     = filter (\<lambda>q. q \<noteq> P \<and> R q) (sorted_list_of_fset ms)"
proof (rule sorted_distinct_set_unique)
  show "sorted (filter (\<lambda>q. q \<noteq> P \<and> R q) (sorted_list_of_fset (finsert P ms)))"
    using sorted_filter [of "\<lambda>x. x" "sorted_list_of_fset (finsert P ms)"]
    by (simp add: sorted_keys_fset)
  show "sorted (filter (\<lambda>q. q \<noteq> P \<and> R q) (sorted_list_of_fset ms))"
    using sorted_filter [of "\<lambda>x. x" "sorted_list_of_fset ms"]
    by (simp add: sorted_keys_fset)
  show "set (filter (\<lambda>q. q \<noteq> P \<and> R q) (sorted_list_of_fset (finsert P ms)))
      = set (filter (\<lambda>q. q \<noteq> P \<and> R q) (sorted_list_of_fset ms))"
    by auto
qed (simp_all add: sorted_keys_fset)

lemma sort_filter_sorted:
  "sort (filter R (sorted_list_of_fset S)) = filter R (sorted_list_of_fset S)"
  using sorted_filter [of "\<lambda>x. x" "sorted_list_of_fset S" R]
  by (simp add: sorted_sort_id sorted_keys_fset)

lemma getActivePeers_eq:
  "getActivePeers exclude N s =
     filter (\<lambda>q. q \<noteq> exclude \<and> getConn s q \<noteq> None)
       (sorted_list_of_fset (case fmlookup (networkPeers s) N of None \<Rightarrow> {||} | Some ms \<Rightarrow> ms))"
proof (cases "fmlookup (networkPeers s) N")
  case None
  have "sorted_list_of_fset ({||} :: string fset) = []"
    by (simp add: sorted_list_of_fset.rep_eq)
  with None show ?thesis
    by (simp add: getActivePeers_def)
next
  case (Some ms)
  then show ?thesis
    by (simp only: getActivePeers_def option.case sort_filter_sorted)
qed

lemma broadcastPeerDiscovered_trace:
  "broadcastPeerDiscovered P N isHub data now s =
     s\<lparr>trace := trace s @
        map (\<lambda>q. (the (getConn s q),
               Write (Envelope
                 \<lparr>out_Type = ''peer-discovered'',
                  out_Data = JObj (mergeMap data
                    (fmap_of_list [(''peerId'', JStr P), (''isHub'', JBool isHub)])),
                  out_FromPeerId = ''system'', out_TargetPeer = q,
                  out_NetworkName = N, out_Timestamp = now\<rparr>)))
          (filter (\<lambda>q. q \<noteq> P) (getActivePeers [] N s))\<rparr>"
proof -
  let ?env = "\<lambda>q. \<lparr>out_Type = ''peer-discovered'',
                  out_Data = JObj (mergeMap data
                    (fmap_of_list [(''peerId'', JStr P), (''isHub'', JBool isHub)])),
                  out_FromPeerId = ''system'', out_TargetPeer = q,
                  out_NetworkName = N, out_Timestamp = now\<rparr>"
  let ?g = "\<lambda>q. if q = P then []
                 else (case getConn s q of None \<Rightarrow> [] | Some k \<Rightarrow> [(k, Write (Envelope (?env q)))])"
  have "broadcastPeerDiscovered P N isHub data now s =
      s\<lparr>trace := trace s @ concat (map ?g (getActivePeers [] N s))\<rparr>"
    unfolding broadcastPeerDiscovered_def Let_def
    by (rule fold_appends')
       (simp add: forwardToLocalTarget_def snd_sendToConn getConn_def split: option.splits)
  moreover have "set qs \<subseteq> {q. getConn s q \<noteq> None} \<Longrightarrow>
      concat (map ?g qs) =
        map (\<lambda>q. (the (getConn s q), Write (Envelope (?env q)))) (filter (\<lambda>q. q \<noteq> P) qs)" for qs
    by (induction qs) auto
  moreover have "set (getActivePeers [] N s) \<subseteq> {q. getConn s q \<noteq> None}"
    by (auto simp: getActivePeers_eq)
  ultimately show ?thesis by simp
qed

lemma sendExistingPeersToNew_trace:
  "\<exists>r. sendExistingPeersToNew P N now s = s\<lparr>trace := trace s @ r\<rparr>
       \<and> list_all (toPeerOrMesh P) r"
proof -
  let ?env = "\<lambda>q pi. \<lparr>out_Type = ''peer-discovered'',
                          out_Data = JObj (mergeMap (Data pi)
                            (fmap_of_list [(''peerId'', JStr q), (''isHub'', JBool (IsHub pi))])),
                          out_FromPeerId = ''system'', out_TargetPeer = P,
                          out_NetworkName = N, out_Timestamp = now\<rparr>"
  let ?g = "\<lambda>q. case getPeerInfo s q of None \<Rightarrow> []
                 | Some pi \<Rightarrow> (case getConn s P of None \<Rightarrow> []
                               | Some k \<Rightarrow> [(k, Write (Envelope (?env q pi)))])"
  have "sendExistingPeersToNew P N now s =
      s\<lparr>trace := trace s @ concat (map ?g (getActivePeers P N s))\<rparr>"
    unfolding sendExistingPeersToNew_def Let_def
    by (rule fold_appends')
       (auto simp: snd_sendToConn getConn_def getPeerInfo_def split: option.splits)
  moreover have "list_all (toPeerOrMesh P) (concat (map ?g qs))" for qs
    by (induction qs) (auto simp: toPeerOrMesh_def split: option.splits)
  ultimately show ?thesis by blast
qed

lemma sendCachedCrossHubPeersToNew_trace:
  "\<exists>r. sendCachedCrossHubPeersToNew P N now s = s\<lparr>trace := trace s @ r\<rparr>
       \<and> list_all (toPeerOrMesh P) r"
proof (cases "fmlookup (crossHubCache s) N")
  case None
  then have "sendCachedCrossHubPeersToNew P N now s = s\<lparr>trace := trace s @ []\<rparr>"
    by (simp add: sendCachedCrossHubPeersToNew_def)
  then show ?thesis by (intro exI [of _ "[]"]) simp
next
  case (Some cache)
  let ?env = "\<lambda>q data. \<lparr>out_Type = ''peer-discovered'',
                               out_Data = JObj (mergeMap (Some data)
                                 (fmap_of_list [(''peerId'', JStr q)])),
                               out_FromPeerId = ''system'', out_TargetPeer = P,
                               out_NetworkName = N, out_Timestamp = now\<rparr>"
  let ?g = "\<lambda>q. case fmlookup cache q of None \<Rightarrow> []
                 | Some data \<Rightarrow>
                     if fmlookup (wsConns s) q \<noteq> None then []
                     else (case getConn s P of None \<Rightarrow> []
                           | Some k \<Rightarrow> [(k, Write (Envelope (?env q data)))])"
  have "sendCachedCrossHubPeersToNew P N now s =
      s\<lparr>trace := trace s @ concat (map ?g (keys cache))\<rparr>"
    unfolding sendCachedCrossHubPeersToNew_def Let_def Some option.case
    by (rule fold_appends')
       (auto simp: snd_sendToConn getConn_def split: option.splits)
  moreover have "list_all (toPeerOrMesh P) (concat (map ?g qs))" for qs
    by (induction qs) (auto simp: toPeerOrMesh_def split: option.splits)
  ultimately show ?thesis by blast
qed

lemma announceToBootstrap_trace':
  "\<exists>r. announceToBootstrap P N isHub data now s = s\<lparr>trace := trace s @ r\<rparr>
       \<and> list_all (toPeerOrMesh P) r"
proof -
  obtain p where "announceToBootstrap P N isHub data now s =
     s\<lparr>trace := trace s @ map (\<lambda>ws. (ws, Write (Payload p))) (connectedBootstrap s)\<rparr>"
    using announceToBootstrap_trace by blast
  moreover have "list_all (toPeerOrMesh P) (map (\<lambda>ws. (ws, Write (Payload p))) cs)" for cs
    by (induction cs) (auto simp: toPeerOrMesh_def)
  ultimately show ?thesis by blast
qed

lemma mergeMap_lookup:
  "fmlookup (mergeMap a b) k =
     (case fmlookup b k of
        Some v \<Rightarrow> Some v
      | None \<Rightarrow> (case a of None \<Rightarrow> None | Some m \<Rightarrow> fmlookup m k))"
  by (auto simp: mergeMap_def fmlookup_dom_iff split: option.splits)

text \<open>
  The registry across an announce, a goodbye and a disconnect, in any state. An announce
  by a peer without a record panics, and a goodbye leaves the peer without a record while
  its read loop goes on and no socket is closed. A disconnect deletes the entries of the
  peer id, whichever socket they belong to. An announce changes the membership set of
  the announced network only, and \<^verbatim>\<open>cleanupPeer\<close> only the one the record names.
\<close>

lemma announce_without_record_panics:
  assumes "in_Type msg = ''announce''" and "fmlookup (peerData s) P = None"
  shows "handleMessage hashSignalData P (Some msg) now s = Inl NilPointerDereference"
  using assms by (simp add: handleMessage_def handleAnnounce_def touch_def Let_def)

lemma goodbye_leaves_no_record:
  assumes "in_Type msg = ''goodbye''"
  shows "\<exists>s'. handleMessage hashSignalData P (Some msg) now s = Inr s'
            \<and> fmlookup (peerData s') P = None
            \<and> readLoops s' = readLoops s
            \<and> filter (\<lambda>(c, a). a = Close) (trace s') = filter (\<lambda>(c, a). a = Close) (trace s)"
proof -
  let ?s' = "cleanupPeer P (snd (broadcastToOthers P (respOf P msg now) (touch P now s)))"
  have "handleMessage hashSignalData P (Some msg) now s = Inr ?s'"
    using assms by (rule handleMessage_goodbye)
  moreover have "fmlookup (peerData ?s') P = None"
    by simp
  moreover have "readLoops ?s' = readLoops s"
    by (simp add: cleanupPeer_def Let_def broadcastToOthers_snd touch_def split: option.splits)
  moreover have "filter (\<lambda>(c, a). a = Close) (trace ?s') = filter (\<lambda>(c, a). a = Close) (trace s)"
    by (simp add: broadcastToOthers_snd filter_map comp_def)
  ultimately show ?thesis by blast
qed

lemma disconnect_is_by_peer_id:
  "fmlookup (wsConns (handleDisconnect P code reason now s)) P = None"
  "fmlookup (peerData (handleDisconnect P code reason now s)) P = None"
  by (simp_all add: handleDisconnect_def Let_def)

lemma cleanupPeer_other_network:
  assumes "fmlookup (peerData s) P = Some p" and "NetworkName p \<noteq> N"
  shows "fmlookup (networkPeers (cleanupPeer P s)) N = fmlookup (networkPeers s) N"
  using assms
  by (auto simp: cleanupPeer_def Let_def split: option.splits)

lemma handleAnnounce_registry:
  assumes "fmlookup (peerData s) P = Some p"
  shows "\<exists>s' p'. handleAnnounce P msg resp now s = Inr s'
           \<and> fmlookup (peerData s') P = Some p'
           \<and> NetworkName p' = firstNonEmpty (in_NetworkName msg) ''global''
           \<and> (\<forall>N. N \<noteq> firstNonEmpty (in_NetworkName msg) ''global'' \<longrightarrow>
                  fmlookup (networkPeers s') N = fmlookup (networkPeers s) N)"
proof -
  let ?N = "firstNonEmpty (in_NetworkName msg) ''global''"
  let ?flag = "case in_Data msg of
                 JObj m \<Rightarrow> fmlookup m ''isHub'' = Some (JBool True)
               | _ \<Rightarrow> False"
  let ?D = "case in_Data msg of JObj m \<Rightarrow> Some m | _ \<Rightarrow> Data p"
  let ?p' = "p\<lparr>Announced := True, AnnouncedAt := now, NetworkName := ?N,
                IsHub := (?flag \<or> ?N = opt_HubMeshNamespace (opts s)), Data := ?D\<rparr>"
  let ?s1 = "s\<lparr>peerData := fmupd P ?p' (peerData s)\<rparr>"
  let ?s2 = "if IsHub ?p' then registerHub P ?N (Data ?p') now ?s1 else ?s1"
  let ?members = "case fmlookup (networkPeers s) ?N of None \<Rightarrow> {||} | Some ms \<Rightarrow> ms"
  let ?s3 = "?s2\<lparr>networkPeers := fmupd ?N (finsert P ?members) (networkPeers ?s2)\<rparr>"
  let ?b = "broadcastPeerDiscovered P ?N ?flag ?D now ?s3"
  let ?c = "sendExistingPeersToNew P ?N now ?b"
  let ?d = "sendCachedCrossHubPeersToNew P ?N now ?c"
  let ?e = "announceToBootstrap P ?N ?flag ?D now ?d"
  have unfold: "handleAnnounce P msg resp now s = Inr ?e"
    using assms by (simp add: handleAnnounce_def Let_def registerHub_def)
  obtain r1 where r1: "?c = ?b\<lparr>trace := trace ?b @ r1\<rparr>"
    using sendExistingPeersToNew_trace by blast
  obtain r2 where r2: "?d = ?c\<lparr>trace := trace ?c @ r2\<rparr>"
    using sendCachedCrossHubPeersToNew_trace by blast
  obtain r3 where r3: "?e = ?d\<lparr>trace := trace ?d @ r3\<rparr>"
    using announceToBootstrap_trace' by blast
  have pb: "peerData ?b = peerData ?s3" "networkPeers ?b = networkPeers ?s3"
    by (simp_all add: broadcastPeerDiscovered_trace)
  have pc: "peerData ?c = peerData ?b" "networkPeers ?c = networkPeers ?b"
    by (subst r1, simp)+
  have pd: "peerData ?d = peerData ?c" "networkPeers ?d = networkPeers ?c"
    by (subst r2, simp)+
  have pe: "peerData ?e = peerData ?d" "networkPeers ?e = networkPeers ?d"
    by (subst r3, simp)+
  have reg: "fmlookup (peerData ?e) P = Some ?p'"
    by (simp only: pe pd pc pb) (simp add: registerHub_def)
  have nets: "\<forall>N. N \<noteq> ?N \<longrightarrow> fmlookup (networkPeers ?e) N = fmlookup (networkPeers s) N"
    by (simp only: pe pd pc pb) (simp add: registerHub_def)
  have "NetworkName ?p' = ?N"
    by simp
  with unfold reg nets show ?thesis
    by blast
qed

text \<open>The local branch of \<^verbatim>\<open>handleSignaling\<close>, lines 292-303.\<close>

lemma targetNetwork_touch:
  "(case getPeerInfo (touch P now s) T of
      None \<Rightarrow> ''global''
    | Some t \<Rightarrow> if NetworkName t \<noteq> [] then NetworkName t else ''global'')
   = (case getPeerInfo s T of
        None \<Rightarrow> ''global''
      | Some t \<Rightarrow> if NetworkName t \<noteq> [] then NetworkName t else ''global'')"
  using touch_NetworkName [of P now s T]
  by (auto simp: getPeerInfo_def split: option.splits)

lemma handleSignaling_local:
  assumes "in_TargetPeer msg \<noteq> []"
      and "getConn s (in_TargetPeer msg) = Some c"
  shows "handleSignaling h P msg resp now s =
     (if firstNonEmpty (in_NetworkName msg) ''global'' \<noteq>
           (case getPeerInfo s (in_TargetPeer msg) of
              None \<Rightarrow> ''global''
            | Some t \<Rightarrow> if NetworkName t \<noteq> [] then NetworkName t else ''global'')
      then s
      else s\<lparr>trace := trace s @ [(c, Write (Envelope resp))]\<rparr>)"
  using assms
  by (simp add: handleSignaling_def Let_def forwardToLocalTarget_def snd_sendToConn)

section \<open>The claims\<close>

text \<open>
  C1. In every reachable state each member of a network-membership set has a peer
  record whose \<open>NetworkName\<close> is the key of that set, and after a peer is removed it
  is in no membership set; in particular after it re-announces with another network
  name and then disconnects.

  The code does not keep this. Peer A connects on socket 1 and announces into
  \<^verbatim>\<open>net1\<close>, then into \<^verbatim>\<open>net2\<close>: \<^verbatim>\<open>handleAnnounce\<close> adds A to the set of
  \<^verbatim>\<open>net2\<close> and never takes it out of the set of \<^verbatim>\<open>net1\<close>, so A is a member of
  \<^verbatim>\<open>net1\<close> while its record says \<^verbatim>\<open>net2\<close>. When the socket then fails,
  \<^verbatim>\<open>cleanupPeer\<close> clears only the set named in the record: the record and the socket
  of A are gone and A is still a member of \<^verbatim>\<open>net1\<close>. The lemmas
  \<open>handleAnnounce_registry\<close> and \<open>cleanupPeer_other_network\<close> say the same of
  any state.
\<close>

theorem reannounce_then_disconnect_leaves_member:
  "observe (\<lambda>s. (map_option NetworkName (fmlookup (peerData s) peerA),
                  fmlookup (networkPeers s) ''net1''))
     (run noHash
        [(1, connect peerA 1),
         (2, Frame 1 (Some (announceMsg ''net1'' JNull))),
         (3, Frame 1 (Some (announceMsg ''net2'' JNull)))]
        (NewServer opts0 []))
     = Inr (Some ''net2'', Some {|peerA|})
   \<and> observe (\<lambda>s. (fmlookup (wsConns s) peerA, fmlookup (peerData s) peerA,
                  fmlookup (networkPeers s) ''net1'', fmlookup (networkPeers s) ''net2''))
     (run noHash
        [(1, connect peerA 1),
         (2, Frame 1 (Some (announceMsg ''net1'' JNull))),
         (3, Frame 1 (Some (announceMsg ''net2'' JNull))),
         (4, ReadError 1 ''EOF'')]
        (NewServer opts0 []))
     = Inr (None, None, Some {|peerA|}, None)"
  by code_simp

text \<open>
  C2. For every sequence of frames on one client connection the message handling is
  total and never panics; in particular an announce that arrives after a goodbye on
  the same socket, which is still open, is handled without fault.

  The code panics there. After the goodbye of peer A the read loop of socket 1 is
  still running, the socket was never closed, and the record of A is gone. The
  announce that follows reads \<^verbatim>\<open>pi.Data\<close> through the nil pointer in line 232.
  The lemmas \<open>goodbye_leaves_no_record\<close> and \<open>announce_without_record_panics\<close>
  say the same of any state.
\<close>

theorem announce_after_goodbye_panics:
  "observe (\<lambda>s. (fmlookup (readLoops s) 1, filter (\<lambda>(c, a). a = Close) (trace s),
                  fmlookup (peerData s) peerA))
     (run noHash
        [(1, connect peerA 1),
         (2, Frame 1 (Some goodbyeMsg))]
        (NewServer opts0 []))
     = Inr (Some peerA, [], None)
   \<and> run noHash
        [(1, connect peerA 1),
         (2, Frame 1 (Some goodbyeMsg)),
         (3, Frame 1 (Some (announceMsg ''global'' JNull)))]
        (NewServer opts0 [])
     = Inl NilPointerDereference"
  by code_simp

text \<open>
  C3. When a new connection arrives for a peer id that has a live connection, the old
  socket is evicted before the new one is installed, and after the read loop of the
  old socket has observed the close, the record and the socket of the new connection
  remain registered under the peer id.

  The code unregisters the new connection. Peer A connects on socket 1 and then on
  socket 2: socket 1 is closed, socket 2 is registered and greeted. The read loop of
  socket 1 then gets its read error and calls \<^verbatim>\<open>handleDisconnect\<close> with the peer id,
  and \<^verbatim>\<open>cleanupPeer\<close> deletes the entries of that id, which are those of socket 2 by
  now. Socket 2 is still open and read (its loop is running, only socket 1 was closed),
  and peer A has neither a socket nor a record in the registry. The lemma
  \<open>disconnect_is_by_peer_id\<close> says of any state that a disconnect deletes the
  entries of the peer id.
\<close>

theorem eviction_unregisters_new_socket:
  "observe (\<lambda>s. (fmlookup (wsConns s) peerA,
                  map_option PeerId (fmlookup (peerData s) peerA),
                  fmlookup (readLoops s) 1, fmlookup (readLoops s) 2,
                  map (\<lambda>(c, a). (c, a = Close)) (trace s)))
     (run noHash
        [(1, connect peerA 1),
         (2, connect peerA 2)]
        (NewServer opts0 []))
     = Inr (Some 2, Some peerA, Some peerA, Some peerA,
            [(1, False), (1, True), (2, False)])
   \<and> observe (\<lambda>s. (fmlookup (wsConns s) peerA, fmlookup (peerData s) peerA,
                  fmlookup (readLoops s) 2, filter (\<lambda>(c, a). a = Close) (trace s)))
     (run noHash
        [(1, connect peerA 1),
         (2, connect peerA 2),
         (3, ReadError 1 ''use of closed network connection'')]
        (NewServer opts0 []))
     = Inr (None, None, Some peerA, [(1, Close)])"
  by code_simp

text \<open>
  C4. When an announced peer P of network N sends a \<^verbatim>\<open>goodbye\<close>, the server
  broadcasts to the other peers and then removes P. As stated, the claim has the
  broadcast reach exactly the other peers of network N, with type
  \<^verbatim>\<open>peer-disconnected\<close>.

  Amended: \<^verbatim>\<open>broadcastToOthers\<close> has no notion of a network. The server writes one
  envelope to the socket of every other peer in the connection map, whatever network
  that peer is in: the same envelope for all, but for the target, which is the
  recipient (the order among the recipients is that of a Go map range and is left
  open). Then P is removed from the connection map, from the registry, and from the
  membership set of the network its record names.
\<close>

theorem goodbye_reaches_every_other_connection:
  assumes kind: "in_Type msg = ''goodbye''"
      and announced: "fmlookup (peerData s) P = Some p"
      and network: "NetworkName p \<noteq> []"
  shows "\<exists>s' ids env.
           handleMessage hashSignalData P (Some msg) now s = Inr s'
         \<and> distinct ids \<and> set ids = fmdom' (wsConns s) - {P}
         \<and> trace s' = trace s @
              map (\<lambda>q. (the (getConn s q), Write (Envelope (env\<lparr>out_TargetPeer := q\<rparr>)))) ids
         \<and> fmlookup (wsConns s') P = None
         \<and> fmlookup (peerData s') P = None
         \<and> (case fmlookup (networkPeers s') (NetworkName p) of
               None \<Rightarrow> True
             | Some ms \<Rightarrow> P |\<notin>| ms)"
proof -
  let ?ids = "filter (\<lambda>pid. pid \<noteq> P) (keys (wsConns s))"
  let ?s1 = "snd (broadcastToOthers P (respOf P msg now) (touch P now s))"
  let ?s' = "cleanupPeer P ?s1"
  have run: "handleMessage hashSignalData P (Some msg) now s = Inr ?s'"
    using kind by (rule handleMessage_goodbye)
  have ids: "distinct ?ids" "set ?ids = fmdom' (wsConns s) - {P}"
    by (auto simp: distinct_keys set_keys)
  have tr: "trace ?s' = trace s @
              map (\<lambda>q. (the (getConn s q),
                         Write (Envelope ((respOf P msg now)\<lparr>out_TargetPeer := q\<rparr>)))) ?ids"
    by (simp add: broadcastToOthers_snd getConn_def)
  have gone: "fmlookup (wsConns ?s') P = None" "fmlookup (peerData ?s') P = None"
    by simp_all
  have rec: "fmlookup (peerData ?s1) P = Some (p\<lparr>LastActivity := now\<rparr>)"
    using announced by (simp add: touch_def)
  have "case fmlookup (networkPeers ?s') (NetworkName (p\<lparr>LastActivity := now\<rparr>)) of
               None \<Rightarrow> True
             | Some ms \<Rightarrow> P |\<notin>| ms"
    using rec network by (intro cleanupPeer_not_member) simp_all
  then have mem: "case fmlookup (networkPeers ?s') (NetworkName p) of
               None \<Rightarrow> True
             | Some ms \<Rightarrow> P |\<notin>| ms"
    by simp
  from run ids tr gone mem show ?thesis by blast
qed

text \<open>
  C4, witness: peer A of \<^verbatim>\<open>net1\<close> says goodbye while peer B of \<^verbatim>\<open>net2\<close> is
  connected; B is the one other connection.
\<close>

theorem goodbye_reaches_every_other_connection_witness:
  "in_Type goodbyeMsg = ''goodbye''
   \<and> map_option NetworkName (fmlookup (peerData twoNetworks) peerA) = Some ''net1''
   \<and> map_option NetworkName (fmlookup (peerData twoNetworks) peerB) = Some ''net2''
   \<and> fmdom' (wsConns twoNetworks) - {peerA} = {peerB}
   \<and> (\<exists>s' ids env.
           handleMessage noHash peerA (Some goodbyeMsg) 9 twoNetworks = Inr s'
         \<and> distinct ids \<and> set ids = {peerB}
         \<and> trace s' = trace twoNetworks @
              map (\<lambda>q. (the (getConn twoNetworks q),
                         Write (Envelope (env\<lparr>out_TargetPeer := q\<rparr>)))) ids
         \<and> fmlookup (wsConns s') peerA = None
         \<and> fmlookup (peerData s') peerA = None
         \<and> (case fmlookup (networkPeers s') ''net1'' of
               None \<Rightarrow> True
             | Some ms \<Rightarrow> peerA |\<notin>| ms))"
proof -
  have k: "in_Type goodbyeMsg = ''goodbye''"
    by code_simp
  have nA: "map_option NetworkName (fmlookup (peerData twoNetworks) peerA) = Some ''net1''"
    by code_simp
  have nB: "map_option NetworkName (fmlookup (peerData twoNetworks) peerB) = Some ''net2''"
    by code_simp
  from nA obtain p where p: "fmlookup (peerData twoNetworks) peerA = Some p"
    and n: "NetworkName p = ''net1''"
    by auto
  have ne: "NetworkName p \<noteq> []"
    using n by simp
  have dom: "fmdom' (wsConns twoNetworks) - {peerA} = {peerB}"
  proof -
    have "fmdom (wsConns twoNetworks) |-| {|peerA|} = {|peerB|}"
      by code_simp
    then have "fset (fmdom (wsConns twoNetworks) |-| {|peerA|}) = fset {|peerB|}"
      by simp
    then show ?thesis by (simp add: fmdom'_alt_def)
  qed
  from goodbye_reaches_every_other_connection
         [where hashSignalData = noHash and msg = goodbyeMsg and P = peerA
            and s = twoNetworks and now = 9 and p = p, OF k p ne] k nA nB n dom
  show ?thesis by simp
qed

text \<open>
  C4, counterexample to the claim as stated: peer A is in \<^verbatim>\<open>net1\<close>, peer B in
  \<^verbatim>\<open>net2\<close>. On the goodbye of A, the socket of B is written an envelope, and its
  type is \<^verbatim>\<open>goodbye\<close>.
\<close>

theorem goodbye_crosses_networks:
  "map_option NetworkName (getPeerInfo twoNetworks peerA) = Some ''net1''
   \<and> map_option NetworkName (getPeerInfo twoNetworks peerB) = Some ''net2''
   \<and> getConn twoNetworks peerB = Some 2
   \<and> observe (\<lambda>s'. drop (length (trace twoNetworks)) (trace s'))
         (handleMessage noHash peerA (Some goodbyeMsg) 9 twoNetworks)
       = Inr [(2, Write (Envelope
                \<lparr>out_Type = ''goodbye'', out_Data = JNull,
                 out_FromPeerId = peerA, out_TargetPeer = peerB,
                 out_NetworkName = ''global'', out_Timestamp = 9\<rparr>))]"
  by code_simp

text \<open>
  C5. A signaling message (\<^verbatim>\<open>offer\<close>, \<^verbatim>\<open>answer\<close>, \<^verbatim>\<open>ice-candidate\<close>) from peer P
  for network N whose target T has a live local connection is dropped when the
  network of T is not N: nothing is written to any socket and the relay-dedup set is
  unchanged. As stated, the claim counts a target that has not announced, whose
  \<open>NetworkName\<close> is still empty, as being in another network than N.

  Amended: N is the network name of the message, and \<^verbatim>\<open>global\<close> when that name is
  empty or all white space (line 288, \<open>firstNonEmpty\<close>). The network of T is the
  \<open>NetworkName\<close> of the record of T, and \<^verbatim>\<open>global\<close> when T has no record or that
  \<open>NetworkName\<close> is the empty string (lines 294-297). T has a live local connection.
  When the network of T differs from N, handling the message changes nothing but the
  \<open>LastActivity\<close> of the sender (\<open>touch\<close>): no socket is written, no bootstrap link
  is used, and the relay-dedup set is as before. When the network of T is N and the
  target is not the empty id, the envelope is written to the socket of T and nothing
  else changes besides that \<open>LastActivity\<close>; so a target that has not announced is
  written the signaling sent for \<^verbatim>\<open>global\<close>.
\<close>

theorem cross_network_signal_dropped:
  assumes kind: "in_Type msg = ''offer'' \<or> in_Type msg = ''answer''
                 \<or> in_Type msg = ''ice-candidate''"
      and live: "getConn s (in_TargetPeer msg) = Some c"
      and net: "N = firstNonEmpty (in_NetworkName msg) ''global''"
      and target: "tn = (case getPeerInfo s (in_TargetPeer msg) of
                           None \<Rightarrow> ''global''
                         | Some t \<Rightarrow> if NetworkName t \<noteq> [] then NetworkName t else ''global'')"
  shows "(tn \<noteq> N \<longrightarrow>
            handleMessage hashSignalData P (Some msg) now s = Inr (touch P now s)
            \<and> trace (touch P now s) = trace s
            \<and> relayed (touch P now s) = relayed s)
       \<and> (tn = N \<and> in_TargetPeer msg \<noteq> [] \<longrightarrow>
            handleMessage hashSignalData P (Some msg) now s =
              Inr ((touch P now s)
                     \<lparr>trace := trace s @ [(c, Write (Envelope (respOf P msg now)))]\<rparr>))"
proof (intro conjI impI)
  assume differ: "tn \<noteq> N"
  from live differ
  have "handleSignaling hashSignalData P msg (respOf P msg now) now (touch P now s)
          = touch P now s"
    by (simp add: handleSignaling_def Let_def targetNetwork_touch net target)
  with kind show "handleMessage hashSignalData P (Some msg) now s = Inr (touch P now s)"
    by (simp add: handleMessage_signaling)
  show "trace (touch P now s) = trace s" by simp
  show "relayed (touch P now s) = relayed s" by simp
next
  assume same: "tn = N \<and> in_TargetPeer msg \<noteq> []"
  then have "handleSignaling hashSignalData P msg (respOf P msg now) now (touch P now s)
          = (touch P now s)\<lparr>trace := trace s @ [(c, Write (Envelope (respOf P msg now)))]\<rparr>"
    using live handleSignaling_local [of msg "touch P now s" c hashSignalData P "respOf P msg now" now]
    by (simp add: targetNetwork_touch net target)
  with kind show "handleMessage hashSignalData P (Some msg) now s =
              Inr ((touch P now s)
                     \<lparr>trace := trace s @ [(c, Write (Envelope (respOf P msg now)))]\<rparr>)"
    by (simp add: handleMessage_signaling)
qed

text \<open>
  C5, witness: peer B has announced into \<^verbatim>\<open>net2\<close> and peer A sends it an offer for
  \<^verbatim>\<open>net1\<close>, which is dropped; peer B has announced into \<^verbatim>\<open>global\<close> and peer A
  sends it an offer whose network name is two blanks, which is delivered; peer A has not
  announced and peer B sends it an offer without a network name, which is delivered.
\<close>

theorem cross_network_signal_dropped_witness:
  "getConn twoNetworks peerB = Some 2
   \<and> map_option NetworkName (getPeerInfo twoNetworks peerB) = Some ''net2''
   \<and> handleMessage noHash peerA (Some (offerMsg [] peerB ''net1'')) 5 twoNetworks
       = Inr (touch peerA 5 twoNetworks)
   \<and> trace (touch peerA 5 twoNetworks) = trace twoNetworks
   \<and> relayed (touch peerA 5 twoNetworks) = relayed twoNetworks
   \<and> getConn sameNetwork peerB = Some 2
   \<and> map_option NetworkName (getPeerInfo sameNetwork peerB) = Some ''global''
   \<and> handleMessage noHash peerA (Some (offerMsg [] peerB ''  '')) 5 sameNetwork
       = Inr ((touch peerA 5 sameNetwork)
               \<lparr>trace := trace sameNetwork @
                  [(2, Write (Envelope (respOf peerA (offerMsg [] peerB ''  '') 5)))]\<rparr>)
   \<and> getConn waiting peerA = Some 1
   \<and> map_option NetworkName (getPeerInfo waiting peerA) = Some []
   \<and> handleMessage noHash peerB (Some (offerMsg [] peerA [])) 5 waiting
       = Inr ((touch peerB 5 waiting)
               \<lparr>trace := trace waiting @
                  [(1, Write (Envelope (respOf peerB (offerMsg [] peerA []) 5)))]\<rparr>)"
proof -
  let ?m1 = "offerMsg [] peerB ''net1''"
  let ?m2 = "offerMsg [] peerB ''  ''"
  let ?m3 = "offerMsg [] peerA []"
  have k1: "in_Type ?m1 = ''offer'' \<or> in_Type ?m1 = ''answer'' \<or> in_Type ?m1 = ''ice-candidate''"
    and k2: "in_Type ?m2 = ''offer'' \<or> in_Type ?m2 = ''answer'' \<or> in_Type ?m2 = ''ice-candidate''"
    and k3: "in_Type ?m3 = ''offer'' \<or> in_Type ?m3 = ''answer'' \<or> in_Type ?m3 = ''ice-candidate''"
    by code_simp+
  have l1: "getConn twoNetworks (in_TargetPeer ?m1) = Some 2"
    and l2: "getConn sameNetwork (in_TargetPeer ?m2) = Some 2"
    and l3: "getConn waiting (in_TargetPeer ?m3) = Some 1"
    by code_simp+
  have n1: "''net1'' = firstNonEmpty (in_NetworkName ?m1) ''global''"
    and n2: "''global'' = firstNonEmpty (in_NetworkName ?m2) ''global''"
    and n3: "''global'' = firstNonEmpty (in_NetworkName ?m3) ''global''"
    by code_simp+
  have t1: "''net2'' = (case getPeerInfo twoNetworks (in_TargetPeer ?m1) of
                           None \<Rightarrow> ''global''
                         | Some t \<Rightarrow> if NetworkName t \<noteq> [] then NetworkName t else ''global'')"
    and t2: "''global'' = (case getPeerInfo sameNetwork (in_TargetPeer ?m2) of
                           None \<Rightarrow> ''global''
                         | Some t \<Rightarrow> if NetworkName t \<noteq> [] then NetworkName t else ''global'')"
    and t3: "''global'' = (case getPeerInfo waiting (in_TargetPeer ?m3) of
                           None \<Rightarrow> ''global''
                         | Some t \<Rightarrow> if NetworkName t \<noteq> [] then NetworkName t else ''global'')"
    by code_simp+
  have p1: "in_TargetPeer ?m1 = peerB" and p2: "in_TargetPeer ?m2 = peerB"
    and p3: "in_TargetPeer ?m3 = peerA"
    by code_simp+
  have ne: "peerB \<noteq> []" "peerA \<noteq> []"
    by code_simp+
  have r1: "map_option NetworkName (getPeerInfo twoNetworks peerB) = Some ''net2''"
    and r2: "map_option NetworkName (getPeerInfo sameNetwork peerB) = Some ''global''"
    and r3: "map_option NetworkName (getPeerInfo waiting peerA) = Some []"
    by code_simp+
  have d: "''net2'' \<noteq> ''net1''"
    by simp
  note a = cross_network_signal_dropped
             [where hashSignalData = noHash and P = peerA and now = 5, OF k1 l1 n1 t1]
  note b = cross_network_signal_dropped
             [where hashSignalData = noHash and P = peerA and now = 5, OF k2 l2 n2 t2]
  note c = cross_network_signal_dropped
             [where hashSignalData = noHash and P = peerB and now = 5, OF k3 l3 n3 t3]
  from a d have A: "handleMessage noHash peerA (Some ?m1) 5 twoNetworks
       = Inr (touch peerA 5 twoNetworks)
     \<and> trace (touch peerA 5 twoNetworks) = trace twoNetworks
     \<and> relayed (touch peerA 5 twoNetworks) = relayed twoNetworks"
    by blast
  from b ne have B: "handleMessage noHash peerA (Some ?m2) 5 sameNetwork
       = Inr ((touch peerA 5 sameNetwork)
               \<lparr>trace := trace sameNetwork @
                  [(2, Write (Envelope (respOf peerA ?m2 5)))]\<rparr>)"
    unfolding p2 by blast
  from c ne have C: "handleMessage noHash peerB (Some ?m3) 5 waiting
       = Inr ((touch peerB 5 waiting)
               \<lparr>trace := trace waiting @
                  [(1, Write (Envelope (respOf peerB ?m3 5)))]\<rparr>)"
    unfolding p3 by blast
  from A B C l1 l2 l3 r1 r2 r3 show ?thesis
    unfolding p1 p2 p3 by blast
qed

text \<open>
  C5, counterexample to the claim as stated: peer B is connected and has not announced,
  so its \<open>NetworkName\<close> is empty; peer A sends it an offer without a network name,
  which is an offer for \<^verbatim>\<open>global\<close>. The offer is written to the socket of B.
\<close>

theorem unannounced_target_receives_global_signal:
  "observe (\<lambda>s. (getConn s peerB, map_option NetworkName (getPeerInfo s peerB)))
     (run noHash
        [(1, connect peerA 1), (2, connect peerB 2)]
        (NewServer opts0 []))
     = Inr (Some 2, Some [])
   \<and> firstNonEmpty (in_NetworkName (offerMsg [] peerB [])) ''global'' = ''global''
   \<and> observe (\<lambda>s. drop 2 (trace s))
     (run noHash
        [(1, connect peerA 1), (2, connect peerB 2),
         (3, Frame 1 (Some (offerMsg [] peerB [])))]
        (NewServer opts0 []))
     = Inr [(2, Write (Envelope
              \<lparr>out_Type = ''offer'', out_Data = JObj (fmap_of_list [(''sdp'', JStr ''x'')]),
               out_FromPeerId = peerA, out_TargetPeer = peerB,
               out_NetworkName = ''global'', out_Timestamp = 3\<rparr>))]"
  by code_simp

text \<open>
  C6. A signaling message whose target is not locally connected, sent twice, is written
  once to every connected bootstrap link. The first time its fingerprint (type, source,
  target, hash of the data) is not in the relay-dedup set: the fingerprint is recorded
  with the clock value and the envelope is written once to the socket of each link that
  is connected. The second time nothing is written, whether no cleanup ran in between or
  a cleanup ran at most 5000 ms after the first send.
\<close>

theorem duplicate_signal_relayed_once:
  assumes kind: "in_Type msg = ''offer'' \<or> in_Type msg = ''answer''
                 \<or> in_Type msg = ''ice-candidate''"
      and target: "in_TargetPeer msg \<noteq> []"
      and absent: "getConn s (in_TargetPeer msg) = None"
      and fresh: "fmlookup (relayed s)
                    (in_Type msg @ '':'' @ P @ '':'' @ in_TargetPeer msg @ '':''
                       @ hashSignalData (in_Data msg)) = None"
      and recent: "tick - sent \<le> 5000"
  shows "\<exists>s1 s2 s3.
           handleMessage hashSignalData P (Some msg) sent s = Inr s1
         \<and> trace s1 = trace s @
              map (\<lambda>uri. (the (bc_ws (the (fmlookup (bootstrapConns s) uri))),
                          Write (Envelope (respOf P msg sent))))
                (filter (\<lambda>uri. case fmlookup (bootstrapConns s) uri of
                                  None \<Rightarrow> False
                                | Some b \<Rightarrow> bc_connected b \<and> bc_ws b \<noteq> None)
                   (keys (bootstrapConns s)))
         \<and> fmlookup (relayed s1)
              (in_Type msg @ '':'' @ P @ '':'' @ in_TargetPeer msg @ '':''
                 @ hashSignalData (in_Data msg)) = Some sent
         \<and> handleMessage hashSignalData P (Some msg) again s1 = Inr s2
         \<and> trace s2 = trace s1
         \<and> handleMessage hashSignalData P (Some msg) later (performCleanup tick s1) = Inr s3
         \<and> trace s3 = trace s1"
proof -
  let ?fp = "in_Type msg @ '':'' @ P @ '':'' @ in_TargetPeer msg @ '':''
               @ hashSignalData (in_Data msg)"
  let ?t = "touch P sent s"
  let ?s1 = "?t\<lparr>relayed := fmupd ?fp sent (relayed ?t),
                trace := trace ?t @ map (\<lambda>ws. (ws, Write (Envelope (respOf P msg sent))))
                                      (connectedBootstrap ?t)\<rparr>"
  have first: "handleMessage hashSignalData P (Some msg) sent s = Inr ?s1"
    using kind target absent fresh
    by (simp add: handleMessage_signaling handleSignaling_relay Let_def)
  have tr1: "trace ?s1 = trace s @
              map (\<lambda>uri. (the (bc_ws (the (fmlookup (bootstrapConns s) uri))),
                          Write (Envelope (respOf P msg sent))))
                (filter (\<lambda>uri. case fmlookup (bootstrapConns s) uri of
                                  None \<Rightarrow> False
                                | Some b \<Rightarrow> bc_connected b \<and> bc_ws b \<noteq> None)
                   (keys (bootstrapConns s)))"
    by (simp add: connectedBootstrap_links [of s] comp_def)
  have fp1: "fmlookup (relayed ?s1) ?fp = Some sent"
    by simp
  have absent1: "getConn (touch P again ?s1) (in_TargetPeer msg) = None"
    using absent by (simp add: getConn_def)
  have second: "handleMessage hashSignalData P (Some msg) again ?s1 = Inr (touch P again ?s1)"
    using kind target absent1
    by (simp add: handleMessage_signaling handleSignaling_relay Let_def)
  have absent3: "getConn (touch P later (performCleanup tick ?s1)) (in_TargetPeer msg) = None"
    using absent by (simp add: getConn_def performCleanup_def)
  have fp3: "fmlookup (relayed (touch P later (performCleanup tick ?s1))) ?fp = Some sent"
    using recent by (simp add: performCleanup_def)
  have third: "handleMessage hashSignalData P (Some msg) later (performCleanup tick ?s1)
                 = Inr (touch P later (performCleanup tick ?s1))"
    using kind target absent3 fp3
    by (simp add: handleMessage_signaling handleSignaling_relay Let_def)
  have tr3: "trace (touch P later (performCleanup tick ?s1)) = trace ?s1"
    by (simp add: performCleanup_def)
  have tr2: "trace (touch P again ?s1) = trace ?s1"
    by simp
  from first tr1 fp1 second tr2 third tr3 show ?thesis
    by blast
qed

text \<open>
  C6, witness: a hub with one connected and one disconnected bootstrap link; peer A
  sends the same offer for peer B, which is not connected here, at 100, at 200, and at
  5200 after a cleanup at 5100.
\<close>

theorem duplicate_signal_relayed_once_witness:
  "getConn hubServer (in_TargetPeer (offerMsg [] peerB [])) = None
   \<and> fmlookup (relayed hubServer)
         (in_Type (offerMsg [] peerB []) @ '':'' @ peerA @ '':''
            @ in_TargetPeer (offerMsg [] peerB []) @ '':''
            @ noHash (in_Data (offerMsg [] peerB []))) = None
   \<and> (\<exists>s1 s2 s3.
           handleMessage noHash peerA (Some (offerMsg [] peerB [])) 100 hubServer = Inr s1
         \<and> trace s1 = trace hubServer @
              [(7, Write (Envelope (respOf peerA (offerMsg [] peerB []) 100)))]
         \<and> fmlookup (relayed s1)
              (in_Type (offerMsg [] peerB []) @ '':'' @ peerA @ '':''
                 @ in_TargetPeer (offerMsg [] peerB []) @ '':''
                 @ noHash (in_Data (offerMsg [] peerB []))) = Some 100
         \<and> handleMessage noHash peerA (Some (offerMsg [] peerB [])) 200 s1 = Inr s2
         \<and> trace s2 = trace s1
         \<and> handleMessage noHash peerA (Some (offerMsg [] peerB [])) 5200
               (performCleanup 5100 s1) = Inr s3
         \<and> trace s3 = trace s1)"
proof -
  let ?m = "offerMsg [] peerB []"
  have k: "in_Type ?m = ''offer'' \<or> in_Type ?m = ''answer'' \<or> in_Type ?m = ''ice-candidate''"
    by code_simp
  have t: "in_TargetPeer ?m \<noteq> []"
    by code_simp
  have a: "getConn hubServer (in_TargetPeer ?m) = None"
    by code_simp
  have f: "fmlookup (relayed hubServer)
         (in_Type ?m @ '':'' @ peerA @ '':'' @ in_TargetPeer ?m @ '':''
            @ noHash (in_Data ?m)) = None"
    by code_simp
  have r: "(5100::int) - 100 \<le> 5000"
    by simp
  have links: "filter (\<lambda>uri. case fmlookup (bootstrapConns hubServer) uri of
                                  None \<Rightarrow> False
                                | Some b \<Rightarrow> bc_connected b \<and> bc_ws b \<noteq> None)
                   (keys (bootstrapConns hubServer)) = [''ws://hub1:3000'']"
    by code_simp
  have sock: "the (bc_ws (the (fmlookup (bootstrapConns hubServer) ''ws://hub1:3000''))) = 7"
    by code_simp
  from duplicate_signal_relayed_once
         [where hashSignalData = noHash and msg = ?m and P = peerA and s = hubServer
            and sent = 100 and again = 200 and later = 5200 and tick = 5100,
          OF k t a f r] a f
  show ?thesis
    unfolding links by (simp add: sock)
qed

text \<open>
  C7. A request passes the token check and the peer-id check and is upgraded; its peer
  id has no live connection, and the number of live connections has reached
  \<open>MaxConnections\<close>. Then the new socket is sent a close frame with code 1008 and is
  closed; no peer record is created, no read loop is started, and the connection map,
  the registry and the membership sets are unchanged: the state differs in the trace
  only.
\<close>

theorem cap_overflow_closes_new_socket:
  assumes token: "opt_AuthToken (opts s) = []
                  \<or> (HasPrefix (rq_Authorization rq) ''Bearer ''
                      \<and> TrimPrefix (rq_Authorization rq) ''Bearer '' = opt_AuthToken (opts s))
                  \<or> rq_token rq = opt_AuthToken (opts s)"
      and valid: "validatePeerId (rq_peerId rq)"
      and sock: "rq_upgrade rq = Some c"
      and fresh: "fmlookup (wsConns s) (rq_peerId rq) = None"
      and full: "opt_MaxConnections (opts s) \<le> int (fcard (fmdom (wsConns s)))"
  shows "handleWS now rq s =
           (Upgraded,
            s\<lparr>trace := trace s @
                 [(c, WriteControlClose 1008 ''max connections''), (c, Close)]\<rparr>)"
proof -
  from token have "\<not> (opt_AuthToken (opts s) \<noteq> []
            \<and> (\<not> HasPrefix (rq_Authorization rq) ''Bearer ''
                 \<or> TrimPrefix (rq_Authorization rq) ''Bearer '' \<noteq> opt_AuthToken (opts s))
            \<and> rq_token rq \<noteq> opt_AuthToken (opts s))"
    by blast
  with valid sock fresh full show ?thesis
    by (simp add: handleWS_def Let_def ClosePolicyViolation_def)
qed

text \<open>
  C7, witness: the cap is 1 and peer A is connected; peer B asks for a connection.
\<close>

theorem cap_overflow_witness:
  "validatePeerId (rq_peerId (requestOf peerB 2))
   \<and> opt_AuthToken (opts oneConnected) = []
   \<and> rq_upgrade (requestOf peerB 2) = Some 2
   \<and> fmlookup (wsConns oneConnected) (rq_peerId (requestOf peerB 2)) = None
   \<and> opt_MaxConnections (opts oneConnected) = 1
   \<and> fcard (fmdom (wsConns oneConnected)) = 1
   \<and> handleWS 2 (requestOf peerB 2) oneConnected =
           (Upgraded,
            oneConnected\<lparr>trace := trace oneConnected @
                 [(2, WriteControlClose 1008 ''max connections''), (2, Close)]\<rparr>)"
proof -
  have h0: "opt_AuthToken (opts oneConnected) = []" by code_simp
  have h1: "validatePeerId (rq_peerId (requestOf peerB 2))" by code_simp
  have h2: "rq_upgrade (requestOf peerB 2) = Some 2" by code_simp
  have h3: "fmlookup (wsConns oneConnected) (rq_peerId (requestOf peerB 2)) = None" by code_simp
  have h4: "opt_MaxConnections (opts oneConnected) = 1" by code_simp
  have h5: "fcard (fmdom (wsConns oneConnected)) = 1" by code_simp
  have full: "opt_MaxConnections (opts oneConnected) \<le> int (fcard (fmdom (wsConns oneConnected)))"
    by (simp add: h4 h5)
  from cap_overflow_closes_new_socket [OF disjI1 [OF h0] h1 h2 h3 full] h0 h1 h2 h3 h4 h5
  show ?thesis by blast
qed

text \<open>
  C8. A bootstrap URI whose host and port are the server's own bind host and bound port
  is skipped: no dial is made and no bootstrap connection entry is created.

  The code dials itself. The server is bound to \<^verbatim>\<open>localhost\<close>, port 3000, and is
  given the URI \<^verbatim>\<open>ws://localhost:3000\<close>, which \<^verbatim>\<open>url.Parse\<close> reads as
  \<^verbatim>\<open>Host = "localhost:3000"\<close>. Line 646 compares that field with the bind host
  \<^verbatim>\<open>localhost\<close>, so the test fails, whatever \<^verbatim>\<open>itoa\<close> returns: the URI is dialed
  (with the hub's peer id), the link is entered in \<^verbatim>\<open>bootstrapConns\<close>, and the hub
  announces itself on the new socket.
\<close>

theorem self_dial_not_skipped:
  "(let s = connectToHub itoa (Some ''localhost:3000'') (Some 7) ''ws://localhost:3000'' 0 1000
              (NewServer hubOpts hubId)
    in (opt_Host (opts s), port s, dials s,
        map_option bc_ws (fmlookup (bootstrapConns s) ''ws://localhost:3000''),
        map fst (trace s)))
   = (''localhost'', 3000, [''ws://localhost:3000?peerId='' @ hubId], Some (Some 7), [7])"
  by code_simp

text \<open>
  C9. Peer P, which has a record, announces into network N. The first thing written is
  one \<^verbatim>\<open>peer-discovered\<close> envelope to the socket of every other member of N that
  has a live connection, in ascending order of peer id (\<^verbatim>\<open>getActivePeers\<close> leaves out
  the empty id). In the data of each of them the key \<^verbatim>\<open>peerId\<close> is the peer id of
  the connection of P and the key \<^verbatim>\<open>isHub\<close> is the hub flag read from the announce
  (true exactly when the announce data is an object whose \<^verbatim>\<open>isHub\<close> is the boolean
  true); every other key is as in the data of P. So the two keys of the server win over
  keys of the same name in the data of the client. Whatever else the announce writes is
  addressed to P itself or goes to a bootstrap link.
\<close>

theorem peer_discovered_carries_server_keys:
  assumes known: "fmlookup (peerData s) P = Some p"
      and net: "N = firstNonEmpty (in_NetworkName msg) ''global''"
      and flag: "flag = (case in_Data msg of
                           JObj m \<Rightarrow> fmlookup m ''isHub'' = Some (JBool True)
                         | _ \<Rightarrow> False)"
      and data: "D = (case in_Data msg of JObj m \<Rightarrow> Some m | _ \<Rightarrow> Data p)"
      and others: "others =
                     filter (\<lambda>q. q \<noteq> [] \<and> q \<noteq> P \<and> getConn s q \<noteq> None)
                       (sorted_list_of_fset
                          (case fmlookup (networkPeers s) N of None \<Rightarrow> {||} | Some ms \<Rightarrow> ms))"
  shows "\<exists>s' payload rest.
           handleAnnounce P msg resp now s = Inr s'
         \<and> trace s' = trace s @
              map (\<lambda>q. (the (getConn s q),
                     Write (Envelope
                       \<lparr>out_Type = ''peer-discovered'', out_Data = JObj payload,
                        out_FromPeerId = ''system'', out_TargetPeer = q,
                        out_NetworkName = N, out_Timestamp = now\<rparr>))) others
              @ rest
         \<and> list_all (toPeerOrMesh P) rest
         \<and> fmlookup payload ''peerId'' = Some (JStr P)
         \<and> fmlookup payload ''isHub'' = Some (JBool flag)
         \<and> (\<forall>k. k \<noteq> ''peerId'' \<and> k \<noteq> ''isHub'' \<longrightarrow>
                fmlookup payload k = (case D of None \<Rightarrow> None | Some d \<Rightarrow> fmlookup d k))"
proof -
  let ?p' = "p\<lparr>Announced := True, AnnouncedAt := now, NetworkName := N,
                IsHub := (flag \<or> N = opt_HubMeshNamespace (opts s)), Data := D\<rparr>"
  let ?s1 = "s\<lparr>peerData := fmupd P ?p' (peerData s)\<rparr>"
  let ?s2 = "if IsHub ?p' then registerHub P N (Data ?p') now ?s1 else ?s1"
  let ?members = "case fmlookup (networkPeers s) N of None \<Rightarrow> {||} | Some ms \<Rightarrow> ms"
  let ?s3 = "?s2\<lparr>networkPeers := fmupd N (finsert P ?members) (networkPeers ?s2)\<rparr>"
  let ?payload = "mergeMap D (fmap_of_list [(''peerId'', JStr P), (''isHub'', JBool flag)])"
  let ?env = "\<lambda>q. \<lparr>out_Type = ''peer-discovered'', out_Data = JObj ?payload,
                        out_FromPeerId = ''system'', out_TargetPeer = q,
                        out_NetworkName = N, out_Timestamp = now\<rparr>"
  let ?b = "broadcastPeerDiscovered P N flag D now ?s3"
  have unfold: "handleAnnounce P msg resp now s =
      Inr (announceToBootstrap P N flag D now
            (sendCachedCrossHubPeersToNew P N now
              (sendExistingPeersToNew P N now ?b)))"
    using known
    by (simp add: handleAnnounce_def Let_def net [symmetric] flag [symmetric] data [symmetric]
          registerHub_def)
  have s3: "trace ?s3 = trace s" "\<And>q. getConn ?s3 q = getConn s q"
      "fmlookup (networkPeers ?s3) N = Some (finsert P ?members)"
    by (simp_all add: registerHub_def getConn_def)
  have "filter (\<lambda>q. q \<noteq> P) (getActivePeers [] N ?s3)
      = filter (\<lambda>q. q \<noteq> P \<and> (q \<noteq> [] \<and> getConn s q \<noteq> None))
          (sorted_list_of_fset (finsert P ?members))"
    unfolding getActivePeers_eq s3 by (simp add: conj_ac cong: filter_cong)
  also have "\<dots> = filter (\<lambda>q. q \<noteq> P \<and> (q \<noteq> [] \<and> getConn s q \<noteq> None))
          (sorted_list_of_fset ?members)"
    by (rule filter_finsert_other)
  also have "\<dots> = others"
    unfolding others by (rule filter_cong) auto
  finally have recipients: "filter (\<lambda>q. q \<noteq> P) (getActivePeers [] N ?s3) = others" .
  have b: "?b = ?s3\<lparr>trace := trace s @ map (\<lambda>q. (the (getConn s q), Write (Envelope (?env q)))) others\<rparr>"
    unfolding broadcastPeerDiscovered_trace recipients s3 ..
  obtain r1 where r1: "sendExistingPeersToNew P N now ?b = ?b\<lparr>trace := trace ?b @ r1\<rparr>"
      and a1: "list_all (toPeerOrMesh P) r1"
    using sendExistingPeersToNew_trace by blast
  let ?c = "sendExistingPeersToNew P N now ?b"
  obtain r2 where r2: "sendCachedCrossHubPeersToNew P N now ?c = ?c\<lparr>trace := trace ?c @ r2\<rparr>"
      and a2: "list_all (toPeerOrMesh P) r2"
    using sendCachedCrossHubPeersToNew_trace by blast
  let ?d = "sendCachedCrossHubPeersToNew P N now ?c"
  obtain r3 where r3: "announceToBootstrap P N flag D now ?d = ?d\<lparr>trace := trace ?d @ r3\<rparr>"
      and a3: "list_all (toPeerOrMesh P) r3"
    using announceToBootstrap_trace' by blast
  let ?e = "announceToBootstrap P N flag D now ?d"
  have tb: "trace ?b = trace s @ map (\<lambda>q. (the (getConn s q), Write (Envelope (?env q)))) others"
    by (subst b) simp
  have tc: "trace ?c = trace ?b @ r1"
    by (subst r1) simp
  have td: "trace ?d = trace ?c @ r2"
    by (subst r2) simp
  have te: "trace ?e = trace ?d @ r3"
    by (subst r3) simp
  have tr: "trace ?e = trace s @ map (\<lambda>q. (the (getConn s q), Write (Envelope (?env q)))) others
              @ (r1 @ r2 @ r3)"
    by (simp only: te td tc tb append_assoc)
  have rest: "list_all (toPeerOrMesh P) (r1 @ r2 @ r3)"
    using a1 a2 a3 by simp
  have k1: "fmlookup ?payload ''peerId'' = Some (JStr P)"
    and k2: "fmlookup ?payload ''isHub'' = Some (JBool flag)"
    and k3: "\<forall>k. k \<noteq> ''peerId'' \<and> k \<noteq> ''isHub'' \<longrightarrow>
                fmlookup ?payload k = (case D of None \<Rightarrow> None | Some d \<Rightarrow> fmlookup d k)"
    by (simp_all add: mergeMap_lookup fmlookup_of_list)
  from unfold tr rest k1 k2 k3 show ?thesis
    by blast
qed

text \<open>
  C9, witness: peer B is in \<^verbatim>\<open>global\<close>; peer A announces with data in which
  \<^verbatim>\<open>peerId\<close> is the id of B and \<^verbatim>\<open>isHub\<close> is the string \<^verbatim>\<open>yes\<close>.
\<close>

theorem peer_discovered_carries_server_keys_witness:
  "fmlookup (peerData waiting) peerA \<noteq> None
   \<and> filter (\<lambda>q. q \<noteq> [] \<and> q \<noteq> peerA \<and> getConn waiting q \<noteq> None)
         (sorted_list_of_fset
            (case fmlookup (networkPeers waiting) ''global'' of
               None \<Rightarrow> {||} | Some ms \<Rightarrow> ms)) = [peerB]
   \<and> getConn waiting peerB = Some 2
   \<and> (\<exists>s' payload rest.
           handleAnnounce peerA (announceMsg [] (JObj conflictingData))
             (respOf peerA (announceMsg [] (JObj conflictingData)) 9) 9 waiting = Inr s'
         \<and> trace s' = trace waiting @
              map (\<lambda>q. (the (getConn waiting q),
                     Write (Envelope
                       \<lparr>out_Type = ''peer-discovered'', out_Data = JObj payload,
                        out_FromPeerId = ''system'', out_TargetPeer = q,
                        out_NetworkName = ''global'', out_Timestamp = 9\<rparr>))) [peerB]
              @ rest
         \<and> list_all (toPeerOrMesh peerA) rest
         \<and> fmlookup payload ''peerId'' = Some (JStr peerA)
         \<and> fmlookup payload ''isHub'' = Some (JBool False)
         \<and> (\<forall>k. k \<noteq> ''peerId'' \<and> k \<noteq> ''isHub'' \<longrightarrow>
                fmlookup payload k = fmlookup conflictingData k))
   \<and> fmlookup conflictingData ''peerId'' = Some (JStr peerB)
   \<and> fmlookup conflictingData ''isHub'' = Some (JStr ''yes'')"
proof -
  let ?m = "announceMsg [] (JObj conflictingData)"
  let ?p = "the (fmlookup (peerData waiting) peerA)"
  have h0: "fmlookup (peerData waiting) peerA \<noteq> None"
    by code_simp
  then have h1: "fmlookup (peerData waiting) peerA = Some ?p"
    by simp
  have h2: "''global'' = firstNonEmpty (in_NetworkName ?m) ''global''"
    by code_simp
  have h3: "False = (case in_Data ?m of
                           JObj m \<Rightarrow> fmlookup m ''isHub'' = Some (JBool True)
                         | _ \<Rightarrow> False)"
    by code_simp
  have h4: "Some conflictingData = (case in_Data ?m of JObj m \<Rightarrow> Some m | _ \<Rightarrow> Data ?p)"
    by (simp add: announceMsg_def)
  have h5: "[peerB] =
                     filter (\<lambda>q. q \<noteq> [] \<and> q \<noteq> peerA \<and> getConn waiting q \<noteq> None)
                       (sorted_list_of_fset
                          (case fmlookup (networkPeers waiting) ''global'' of
                             None \<Rightarrow> {||} | Some ms \<Rightarrow> ms))"
    by code_simp
  have c: "getConn waiting peerB = Some 2"
    by code_simp
  have d1: "fmlookup conflictingData ''peerId'' = Some (JStr peerB)"
    and d2: "fmlookup conflictingData ''isHub'' = Some (JStr ''yes'')"
    by code_simp+
  from peer_discovered_carries_server_keys
         [where s = waiting and P = peerA and p = ?p and N = "''global''" and msg = ?m
            and flag = False and D = "Some conflictingData" and others = "[peerB]"
            and now = 9 and resp = "respOf peerA ?m 9", OF h1 h2 h3 h4 h5]
       h0 h5 [symmetric] c d1 d2
  show ?thesis by simp
qed

text \<open>
  C10. For an inbound \<^verbatim>\<open>goodbye\<close>, \<^verbatim>\<open>offer\<close>, \<^verbatim>\<open>answer\<close> or
  \<^verbatim>\<open>ice-candidate\<close> received on the connection of peer P, handling returns, and what
  it writes is exactly this. The envelope \<open>env\<close> has the type, data, target and network
  of the message (the network \<^verbatim>\<open>global\<close> when blank), and its \<open>fromPeerId\<close> is the
  field the client supplied when that field is not empty after trimming white space,
  and the peer id of the connection otherwise. A \<^verbatim>\<open>goodbye\<close> writes \<open>env\<close>, with the
  recipient as target, to the socket of every other peer in the connection map. A
  signaling message with an empty target writes nothing. With a target that has a live
  connection it writes \<open>env\<close> to the socket of the target when the network of the
  target is the network of the message, and nothing otherwise. With a target that has
  no live connection it writes \<open>env\<close> to the socket of every connected bootstrap
  link when its fingerprint is not in the relay-dedup set, and nothing otherwise.
  None of these conditions reads the supplied \<open>fromPeerId\<close>: the envelope is written
  with it whether or not it is the peer id of the connection.
\<close>

theorem forwarded_envelope_sender:
  assumes kind: "in_Type msg = ''goodbye'' \<or> in_Type msg = ''offer''
                 \<or> in_Type msg = ''answer'' \<or> in_Type msg = ''ice-candidate''"
      and env: "env = \<lparr>out_Type = in_Type msg, out_Data = in_Data msg,
                       out_FromPeerId = (if TrimSpace (in_FromPeerId msg) \<noteq> []
                                         then in_FromPeerId msg else P),
                       out_TargetPeer = in_TargetPeer msg,
                       out_NetworkName = firstNonEmpty (in_NetworkName msg) ''global'',
                       out_Timestamp = now\<rparr>"
  shows "\<exists>s'.
           handleMessage hashSignalData P (Some msg) now s = Inr s'
         \<and> trace s' = trace s @
             (if in_Type msg = ''goodbye'' then
                map (\<lambda>q. (the (getConn s q), Write (Envelope (env\<lparr>out_TargetPeer := q\<rparr>))))
                  (filter (\<lambda>q. q \<noteq> P) (keys (wsConns s)))
              else if in_TargetPeer msg = [] then []
              else
                (case getConn s (in_TargetPeer msg) of
                   Some c \<Rightarrow>
                     if firstNonEmpty (in_NetworkName msg) ''global'' =
                          (case getPeerInfo s (in_TargetPeer msg) of
                             None \<Rightarrow> ''global''
                           | Some t \<Rightarrow>
                               if NetworkName t \<noteq> [] then NetworkName t else ''global'')
                     then [(c, Write (Envelope env))]
                     else []
                 | None \<Rightarrow>
                     if fmlookup (relayed s)
                          (in_Type msg @ '':'' @ P @ '':'' @ in_TargetPeer msg @ '':''
                             @ hashSignalData (in_Data msg)) \<noteq> None
                     then []
                     else
                       map (\<lambda>uri. (the (bc_ws (the (fmlookup (bootstrapConns s) uri))),
                                   Write (Envelope env)))
                         (filter (\<lambda>uri. case fmlookup (bootstrapConns s) uri of
                                           None \<Rightarrow> False
                                         | Some b \<Rightarrow> bc_connected b \<and> bc_ws b \<noteq> None)
                            (keys (bootstrapConns s)))))"
proof -
  have resp: "respOf P msg now = env"
    by (simp add: respOf_def firstNonEmpty_def env)
  show ?thesis
  proof (cases "in_Type msg = ''goodbye''")
    case True
    let ?s' = "cleanupPeer P (snd (broadcastToOthers P env (touch P now s)))"
    have "handleMessage hashSignalData P (Some msg) now s = Inr ?s'"
      using True handleMessage_goodbye [of msg hashSignalData P now s] by (simp add: resp)
    moreover have "trace ?s' = trace s @
        map (\<lambda>q. (the (getConn s q), Write (Envelope (env\<lparr>out_TargetPeer := q\<rparr>))))
          (filter (\<lambda>q. q \<noteq> P) (keys (wsConns s)))"
      by (simp add: broadcastToOthers_snd getConn_def)
    ultimately show ?thesis using True by simp
  next
    case False
    with kind have sig: "in_Type msg = ''offer'' \<or> in_Type msg = ''answer''
                 \<or> in_Type msg = ''ice-candidate''"
      by blast
    let ?t = "touch P now s"
    let ?s' = "handleSignaling hashSignalData P msg env now ?t"
    have run: "handleMessage hashSignalData P (Some msg) now s = Inr ?s'"
      using sig handleMessage_signaling [of msg hashSignalData P now s] by (simp add: resp)
    show ?thesis
    proof (cases "in_TargetPeer msg = []")
      case True
      then have "trace ?s' = trace s"
        by (simp add: handleSignaling_def)
      with run False True show ?thesis by simp
    next
      case target: False
      show ?thesis
      proof (cases "getConn s (in_TargetPeer msg)")
        case (Some c)
        then have "getConn ?t (in_TargetPeer msg) = Some c"
          by simp
        from handleSignaling_local [OF target this, of hashSignalData P env now]
        have "trace ?s' = trace s @
           (if firstNonEmpty (in_NetworkName msg) ''global'' =
                          (case getPeerInfo s (in_TargetPeer msg) of
                             None \<Rightarrow> ''global''
                           | Some t \<Rightarrow>
                               if NetworkName t \<noteq> [] then NetworkName t else ''global'')
            then [(c, Write (Envelope env))] else [])"
          by (simp add: targetNetwork_touch)
        with run False target Some show ?thesis by simp
      next
        case None
        then have "getConn ?t (in_TargetPeer msg) = None"
          by simp
        from handleSignaling_relay [OF target this, of hashSignalData P env now]
        have "trace ?s' = trace s @
           (if fmlookup (relayed s)
                          (in_Type msg @ '':'' @ P @ '':'' @ in_TargetPeer msg @ '':''
                             @ hashSignalData (in_Data msg)) \<noteq> None
            then []
            else map (\<lambda>ws. (ws, Write (Envelope env))) (connectedBootstrap s))"
          by (simp add: Let_def)
        then have "trace ?s' = trace s @
           (if fmlookup (relayed s)
                          (in_Type msg @ '':'' @ P @ '':'' @ in_TargetPeer msg @ '':''
                             @ hashSignalData (in_Data msg)) \<noteq> None
            then []
            else map (\<lambda>uri. (the (bc_ws (the (fmlookup (bootstrapConns s) uri))),
                                   Write (Envelope env)))
                         (filter (\<lambda>uri. case fmlookup (bootstrapConns s) uri of
                                           None \<Rightarrow> False
                                         | Some b \<Rightarrow> bc_connected b \<and> bc_ws b \<noteq> None)
                            (keys (bootstrapConns s))))"
          by (simp add: connectedBootstrap_links [of s] comp_def)
        with run False target None show ?thesis by simp
      qed
    qed
  qed
qed

text \<open>
  C10, witness: peers A and B are in \<^verbatim>\<open>global\<close>; on its own connection A sends B an
  offer that names a third id as \<open>fromPeerId\<close>, and B is written the offer with that
  id as sender. With a \<open>fromPeerId\<close> of two blanks the sender written is A. On a hub
  where B is not connected, the offer with the third id as sender is written to the
  connected bootstrap link.
\<close>

theorem forwarded_envelope_sender_witness:
  "(\<exists>s'. handleMessage noHash peerA (Some (offerMsg hubId peerB [])) 9 sameNetwork = Inr s'
         \<and> trace s' = trace sameNetwork @
              [(2, Write (Envelope
                 \<lparr>out_Type = ''offer'', out_Data = JObj (fmap_of_list [(''sdp'', JStr ''x'')]),
                  out_FromPeerId = hubId, out_TargetPeer = peerB,
                  out_NetworkName = ''global'', out_Timestamp = 9\<rparr>))])
   \<and> (\<exists>s'. handleMessage noHash peerA (Some (offerMsg ''  '' peerB [])) 9 sameNetwork = Inr s'
         \<and> trace s' = trace sameNetwork @
              [(2, Write (Envelope
                 \<lparr>out_Type = ''offer'', out_Data = JObj (fmap_of_list [(''sdp'', JStr ''x'')]),
                  out_FromPeerId = peerA, out_TargetPeer = peerB,
                  out_NetworkName = ''global'', out_Timestamp = 9\<rparr>))])
   \<and> (\<exists>s'. handleMessage noHash peerA (Some (offerMsg hubId peerB [])) 9 hubServer = Inr s'
         \<and> trace s' = trace hubServer @
              [(7, Write (Envelope
                 \<lparr>out_Type = ''offer'', out_Data = JObj (fmap_of_list [(''sdp'', JStr ''x'')]),
                  out_FromPeerId = hubId, out_TargetPeer = peerB,
                  out_NetworkName = ''global'', out_Timestamp = 9\<rparr>))])
   \<and> hubId \<noteq> peerA"
proof -
  let ?m = "offerMsg hubId peerB []"
  let ?w = "offerMsg ''  '' peerB []"
  let ?e = "\<lambda>from. \<lparr>out_Type = ''offer'', out_Data = JObj (fmap_of_list [(''sdp'', JStr ''x'')]),
                  out_FromPeerId = from, out_TargetPeer = peerB,
                  out_NetworkName = ''global'', out_Timestamp = 9\<rparr>"
  have km: "in_Type ?m = ''goodbye'' \<or> in_Type ?m = ''offer''
      \<or> in_Type ?m = ''answer'' \<or> in_Type ?m = ''ice-candidate''"
    and kw: "in_Type ?w = ''goodbye'' \<or> in_Type ?w = ''offer''
      \<or> in_Type ?w = ''answer'' \<or> in_Type ?w = ''ice-candidate''"
    by code_simp+
  have em: "?e hubId = \<lparr>out_Type = in_Type ?m, out_Data = in_Data ?m,
                       out_FromPeerId = (if TrimSpace (in_FromPeerId ?m) \<noteq> []
                                         then in_FromPeerId ?m else peerA),
                       out_TargetPeer = in_TargetPeer ?m,
                       out_NetworkName = firstNonEmpty (in_NetworkName ?m) ''global'',
                       out_Timestamp = 9\<rparr>"
    by code_simp
  have ew: "?e peerA = \<lparr>out_Type = in_Type ?w, out_Data = in_Data ?w,
                       out_FromPeerId = (if TrimSpace (in_FromPeerId ?w) \<noteq> []
                                         then in_FromPeerId ?w else peerA),
                       out_TargetPeer = in_TargetPeer ?w,
                       out_NetworkName = firstNonEmpty (in_NetworkName ?w) ''global'',
                       out_Timestamp = 9\<rparr>"
    by code_simp
  have ty: "in_Type ?m = ''offer''" "in_Type ?w = ''offer''"
    and tp: "in_TargetPeer ?m = peerB" "in_TargetPeer ?w = peerB"
    and ne: "peerB \<noteq> []"
    and nn: "firstNonEmpty (in_NetworkName ?m) ''global'' = ''global''"
            "firstNonEmpty (in_NetworkName ?w) ''global'' = ''global''"
    and da: "in_Data ?m = JObj (fmap_of_list [(''sdp'', JStr ''x'')])"
    by code_simp+
  have gs: "getConn sameNetwork peerB = Some 2"
    and ps: "(case getPeerInfo sameNetwork peerB of
                None \<Rightarrow> ''global''
              | Some t \<Rightarrow> if NetworkName t \<noteq> [] then NetworkName t else ''global'') = ''global''"
    and gh: "getConn hubServer peerB = None"
    and fh: "fmlookup (relayed hubServer)
               (''offer'' @ '':'' @ peerA @ '':'' @ peerB @ '':'' @ noHash (in_Data ?m)) = None"
    and lh: "filter (\<lambda>uri. case fmlookup (bootstrapConns hubServer) uri of
                                  None \<Rightarrow> False
                                | Some b \<Rightarrow> bc_connected b \<and> bc_ws b \<noteq> None)
                   (keys (bootstrapConns hubServer)) = [''ws://hub1:3000'']"
    and sh: "the (bc_ws (the (fmlookup (bootstrapConns hubServer) ''ws://hub1:3000''))) = 7"
    and df: "hubId \<noteq> peerA"
    by code_simp+
  have og: "''offer'' \<noteq> ''goodbye''"
    by simp
  from forwarded_envelope_sender
         [where hashSignalData = noHash and msg = ?m and P = peerA and s = sameNetwork
            and now = 9 and env = "?e hubId", OF km em]
  have A: "\<exists>s'. handleMessage noHash peerA (Some ?m) 9 sameNetwork = Inr s'
         \<and> trace s' = trace sameNetwork @ [(2, Write (Envelope (?e hubId)))]"
    unfolding ty tp nn ps gs by (simp only: og ne if_False if_True option.case refl)
  from forwarded_envelope_sender
         [where hashSignalData = noHash and msg = ?w and P = peerA and s = sameNetwork
            and now = 9 and env = "?e peerA", OF kw ew]
  have B: "\<exists>s'. handleMessage noHash peerA (Some ?w) 9 sameNetwork = Inr s'
         \<and> trace s' = trace sameNetwork @ [(2, Write (Envelope (?e peerA)))]"
    unfolding ty tp nn ps gs by (simp only: og ne if_False if_True option.case refl)
  from forwarded_envelope_sender
         [where hashSignalData = noHash and msg = ?m and P = peerA and s = hubServer
            and now = 9 and env = "?e hubId", OF km em]
  have C: "\<exists>s'. handleMessage noHash peerA (Some ?m) 9 hubServer = Inr s'
         \<and> trace s' = trace hubServer @ [(7, Write (Envelope (?e hubId)))]"
    unfolding ty tp gh fh lh
    by (simp only: og ne if_False if_True option.case refl list.map sh not_None_eq simp_thms)
  from A B C df show ?thesis
    by blast
qed

end
